theory Spec2Isabelle
  imports Main "HOL-Library.Sublist"
begin

section \<open>Texcaller: a shallow embedding of \<^verbatim>\<open>src/texcaller.c\<close>\<close>

text \<open>
  The C file is embedded function by function.  A C string (\<^verbatim>\<open>char *\<close>) is a
  \<^typ>\<open>string\<close> holding the bytes before the terminating NUL, and a pointer that may
  be \<^verbatim>\<open>NULL\<close> is an \<^typ>\<open>'a option\<close>.  The C library and the operating system are
  not part of the program: every call the program makes to them is answered by a
  \<^emph>\<open>script\<close>, a value that fixes what the call returns.  A property proved for
  every script therefore holds whatever the file system, the heap and the child
  process do.  An answer \<^verbatim>\<open>None\<close> of an integer-valued system call stands for
  success, \<^verbatim>\<open>Some e\<close> for failure, \<open>e\<close> being the text of
  \<^verbatim>\<open>strerror(errno)\<close>.
\<close>

subsection \<open>Characters and number formatting\<close>

type_synonym errno = string

abbreviation NUL :: char where "NUL \<equiv> CHR 0x00"
abbreviation LF :: char where "LF \<equiv> CHR 0x0A"
abbreviation DQ :: char where "DQ \<equiv> CHR 0x22"
abbreviation SQ :: char where "SQ \<equiv> CHR 0x27"
abbreviation BS :: char where "BS \<equiv> CHR 0x5C"
abbreviation BQ :: char where "BQ \<equiv> CHR 0x60"

text \<open>The C string that starts at a buffer: the bytes before the first NUL.\<close>

definition c_str :: "string \<Rightarrow> string" where
  "c_str bytes = takeWhile (\<lambda>c. c \<noteq> NUL) bytes"

text \<open>\<^verbatim>\<open>%lu\<close> and \<^verbatim>\<open>%i\<close>: decimal digits, most significant first.\<close>

definition digit_char :: "nat \<Rightarrow> char" where
  "digit_char d = ''0123456789'' ! d"

fun fmt_lu :: "nat \<Rightarrow> string" where
  "fmt_lu n = (if n < 10 then [digit_char n] else fmt_lu (n div 10) @ [digit_char (n mod 10)])"

declare fmt_lu.simps [simp del]

definition fmt_i :: "int \<Rightarrow> string" where
  "fmt_i i = (if i < 0 then CHR ''-'' # fmt_lu (nat (- i)) else fmt_lu (nat i))"

subsection \<open>\<^verbatim>\<open>escape_latex_char\<close> and \<^verbatim>\<open>texcaller_escape_latex\<close>\<close>

text \<open>The \<^verbatim>\<open>switch\<close> of \<^verbatim>\<open>escape_latex_char\<close>, case by case; \<^verbatim>\<open>None\<close> is \<^verbatim>\<open>NULL\<close>.\<close>

definition escape_latex_char :: "char \<Rightarrow> string option" where
  "escape_latex_char c =
    (if c = CHR ''$'' then Some [BS, CHR ''$'']
     else if c = CHR ''%'' then Some [BS, CHR ''%'']
     else if c = CHR ''&'' then Some [BS, CHR ''&'']
     else if c = CHR ''#'' then Some [BS, CHR ''#'']
     else if c = CHR ''_'' then Some [BS, CHR ''_'']
     else if c = CHR ''{'' then Some [BS, CHR ''{'']
     else if c = CHR ''}'' then Some [BS, CHR ''}'']
     else if c = CHR ''['' then Some ''{[}''
     else if c = CHR '']'' then Some ''{]}''
     else if c = DQ then Some [CHR ''{'', SQ, SQ, CHR ''}'']
     else if c = BS then Some (BS # ''textbackslash{}'')
     else if c = CHR ''~'' then Some (BS # ''textasciitilde{}'')
     else if c = CHR ''<'' then Some (BS # ''textless{}'')
     else if c = CHR ''>'' then Some (BS # ''textgreater{}'')
     else if c = CHR ''^'' then Some (BS # ''textasciicircum{}'')
     else if c = BQ then Some [CHR ''{'', CHR ''}'', BQ]
     else if c = LF then Some [BS, BS]
     else None)"

text \<open>
  First loop of \<^verbatim>\<open>texcaller_escape_latex\<close>: the length of the result.  The argument
  is the memory at \<^verbatim>\<open>s\<close>; the loop stops at the first NUL (the end of the list is
  the terminator of a string without one).
\<close>

fun escaped_length :: "string \<Rightarrow> nat \<Rightarrow> nat" where
  "escaped_length [] len = len"
| "escaped_length (c # cs) len =
    (if c = NUL then len
     else (case escape_latex_char c of
             None \<Rightarrow> escaped_length cs (len + 1)
           | Some escaped_char \<Rightarrow> escaped_length cs (len + length escaped_char)))"

text \<open>
  Second loop: the bytes written to the buffer, in order; \<open>out\<close> is the part of the
  buffer below \<^verbatim>\<open>pos\<close>.
\<close>

fun escape_fill :: "string \<Rightarrow> string \<Rightarrow> string" where
  "escape_fill [] out = out"
| "escape_fill (c # cs) out =
    (if c = NUL then out
     else (case escape_latex_char c of
             None \<Rightarrow> escape_fill cs (out @ [c])
           | Some escaped_char \<Rightarrow> escape_fill cs (out @ escaped_char)))"

text \<open>
  \<open>malloc_ok\<close> is the answer of \<^verbatim>\<open>malloc(length + 1)\<close>.  The result is the C string
  in the buffer, or \<^verbatim>\<open>None\<close> for \<^verbatim>\<open>NULL\<close>.
\<close>

definition texcaller_escape_latex :: "bool \<Rightarrow> string \<Rightarrow> string option" where
  "texcaller_escape_latex malloc_ok s =
    (let len = escaped_length s 0 in
     if \<not> malloc_ok then None
     else Some (escape_fill s []))"

text \<open>The substitution table as the specification lists it.\<close>

definition substitution_table :: "(char \<times> string) list" where
  "substitution_table =
    [(CHR ''$'', [BS, CHR ''$'']),
     (CHR ''%'', [BS, CHR ''%'']),
     (CHR ''&'', [BS, CHR ''&'']),
     (CHR ''#'', [BS, CHR ''#'']),
     (CHR ''_'', [BS, CHR ''_'']),
     (CHR ''{'', [BS, CHR ''{'']),
     (CHR ''}'', [BS, CHR ''}'']),
     (CHR ''['', ''{[}''),
     (CHR '']'', ''{]}''),
     (DQ, [CHR ''{'', SQ, SQ, CHR ''}'']),
     (BS, BS # ''textbackslash{}''),
     (CHR ''~'', BS # ''textasciitilde{}''),
     (CHR ''<'', BS # ''textless{}''),
     (CHR ''>'', BS # ''textgreater{}''),
     (CHR ''^'', BS # ''textasciicircum{}''),
     (BQ, [CHR ''{'', CHR ''}'', BQ]),
     (LF, [BS, BS])]"

definition substitute :: "char \<Rightarrow> string" where
  "substitute c = (case map_of substitution_table c of None \<Rightarrow> [c] | Some r \<Rightarrow> r)"

subsection \<open>\<^verbatim>\<open>sprintf_alloc\<close>\<close>

text \<open>
  \<open>text\<close> is what \<^verbatim>\<open>vsnprintf\<close> formats from the format string and its
  arguments, \<open>malloc_ok\<close> the answer of \<^verbatim>\<open>malloc(len + 1)\<close>.  The function returns
  \<^verbatim>\<open>NULL\<close> for an empty text and when the allocation fails.
\<close>

definition sprintf_alloc :: "bool \<Rightarrow> string \<Rightarrow> string option" where
  "sprintf_alloc malloc_ok text =
    (let len = length text in
     if len \<le> 0 then None
     else if \<not> malloc_ok then None
     else Some text)"

definition quoted :: "string \<Rightarrow> string" where
  "quoted s = DQ # s @ [DQ]"

subsection \<open>\<^verbatim>\<open>remove_directory_recursively\<close>\<close>

text \<open>
  The script of one call: the answer of \<^verbatim>\<open>opendir\<close>, the entries that
  \<^verbatim>\<open>readdir\<close> returns before it returns \<^verbatim>\<open>NULL\<close>, the answers of \<^verbatim>\<open>closedir\<close> and
  \<^verbatim>\<open>rmdir\<close>, and two answers of \<^verbatim>\<open>malloc\<close> inside \<^verbatim>\<open>sprintf_alloc\<close>: one for the
  message about \<^verbatim>\<open>opendir\<close> or \<^verbatim>\<open>closedir\<close> (at most one of the two is formatted in
  a call), one for the message about \<^verbatim>\<open>rmdir\<close>.  An entry carries its \<^verbatim>\<open>d_name\<close>, the answer for the allocation of
  \<^verbatim>\<open>name\<close>, the answer for the allocation of the entry's message (\<^verbatim>\<open>Out of memory.\<close>
  or the \<^verbatim>\<open>unlink\<close> message, at most one per entry), and its \<^verbatim>\<open>d_type\<close>:
  \<^verbatim>\<open>DT_DIR\<close> with the script of the recursive call, or anything else with the
  answer of \<^verbatim>\<open>unlink\<close>.
\<close>

datatype rm_script =
  Rm_script "errno option" "dirent list" "errno option" "errno option" bool bool
and dirent =
  Dirent string bool bool d_type
and d_type =
  DT_DIR rm_script
| DT_OTHER "errno option"

text \<open>
  The function returns its \<^verbatim>\<open>int\<close> and the final \<^verbatim>\<open>*error\<close>; \<open>remove_entries\<close> is the
  \<^verbatim>\<open>readdir\<close> loop, with \<^verbatim>\<open>*error\<close> as its state.  \<^verbatim>\<open>None\<close> is a call that does not
  return: the test \<^verbatim>\<open>name == NULL && *error == NULL\<close> lets a \<^verbatim>\<open>NULL\<close> name through
  when an error is already recorded, and for a directory entry the recursive call
  then passes \<^verbatim>\<open>NULL\<close> to \<^verbatim>\<open>opendir\<close>, where the process dies.  For any other entry
  the \<^verbatim>\<open>NULL\<close> name goes to \<^verbatim>\<open>unlink\<close>, whose answer is not looked at because
  \<^verbatim>\<open>*error\<close> is set.
\<close>

fun remove_directory_recursively :: "rm_script \<Rightarrow> string \<Rightarrow> (int \<times> string option) option"
and remove_entries :: "dirent list \<Rightarrow> string \<Rightarrow> string option \<Rightarrow> string option option"
where
  "remove_directory_recursively (Rm_script opendir_ans entries closedir_ans rmdir_ans msg_ok rmdir_msg_ok) dirname =
    (let error = None in
     case (if opendir_ans \<noteq> None \<and> error = None then
             Some (sprintf_alloc msg_ok
                     (''Unable to read directory entries of '' @ quoted dirname @ '': ''
                      @ the opendir_ans @ ''.''))
           else
             (case remove_entries entries dirname error of
                None \<Rightarrow> None
              | Some error \<Rightarrow>
                  Some (if closedir_ans \<noteq> None \<and> error = None then
                          sprintf_alloc msg_ok
                            (''Unable to close directory '' @ quoted dirname @ '': ''
                             @ the closedir_ans @ ''.'')
                        else error)))
     of
       None \<Rightarrow> None
     | Some error \<Rightarrow>
         Some (if rmdir_ans \<noteq> None then
                 (- 1,
                  if error = None then
                    sprintf_alloc rmdir_msg_ok
                      (''Unable to remove directory '' @ quoted dirname @ '': ''
                       @ the rmdir_ans @ ''.'')
                  else error)
               else (0, None)))"
| "remove_entries [] dirname error = Some error"
| "remove_entries (Dirent d_name name_ok msg_ok d_type # entries) dirname error =
    (if d_name = ''.'' \<or> d_name = ''..'' then remove_entries entries dirname error
     else
       (let name = sprintf_alloc name_ok (dirname @ ''/'' @ d_name) in
        if name = None \<and> error = None then
          remove_entries entries dirname (sprintf_alloc msg_ok ''Out of memory.'')
        else
          (case d_type of
             DT_DIR sub \<Rightarrow>
               (case name of
                  None \<Rightarrow> None
                | Some path \<Rightarrow>
                    (case remove_directory_recursively sub path of
                       None \<Rightarrow> None
                     | Some (rc, sub_error) \<Rightarrow>
                         remove_entries entries dirname
                           (if rc \<noteq> 0 \<and> error = None then sub_error else error)))
           | DT_OTHER unlink_ans \<Rightarrow>
               remove_entries entries dirname
                 (case name of
                    None \<Rightarrow> error
                  | Some path \<Rightarrow>
                      if unlink_ans \<noteq> None \<and> error = None then
                        sprintf_alloc msg_ok
                          (''Unable to remove file '' @ quoted path @ '': ''
                           @ the unlink_ans @ ''.'')
                      else error))))"

subsection \<open>\<^verbatim>\<open>read_file\<close> and \<^verbatim>\<open>write_file\<close>\<close>

text \<open>
  The script of one call of \<^verbatim>\<open>read_file\<close>, in the order of the calls: \<^verbatim>\<open>fopen\<close>,
  \<^verbatim>\<open>fseek\<close> to the end, \<^verbatim>\<open>ftell\<close> (the error, or the size of the file), \<^verbatim>\<open>fseek\<close>
  to the start, \<^verbatim>\<open>malloc\<close> of the buffer, the bytes that \<^verbatim>\<open>fread\<close> delivers,
  \<^verbatim>\<open>ferror\<close>, \<^verbatim>\<open>fclose\<close>, and \<^verbatim>\<open>malloc\<close> inside \<^verbatim>\<open>sprintf_alloc\<close> (a call formats at
  most one message).
\<close>

record read_script =
  rd_fopen :: "errno option"
  rd_fseek_end :: "errno option"
  rd_ftell :: "errno + nat"
  rd_fseek_set :: "errno option"
  rd_malloc :: "errno option"
  rd_fread :: string
  rd_ferror :: "errno option"
  rd_fclose :: "errno option"
  rd_msg_alloc :: bool

text \<open>
  The label \<^verbatim>\<open>error_cleanup\<close>: whatever \<^verbatim>\<open>*dest\<close> and \<^verbatim>\<open>*dest_size\<close> hold is
  dropped.  The triple is \<^verbatim>\<open>(*dest, *dest_size, *error)\<close>.
\<close>

definition error_cleanup ::
  "string option \<times> nat \<times> string option \<Rightarrow> string option \<times> nat \<times> string option" where
  "error_cleanup st = (case st of (dest, dest_size, error) \<Rightarrow> (None, 0, error))"

definition read_file :: "read_script \<Rightarrow> string \<Rightarrow> string option \<times> nat \<times> string option" where
  "read_file a path =
    (case rd_fopen a of
       Some e \<Rightarrow>
         error_cleanup (None, 0,
           sprintf_alloc (rd_msg_alloc a)
             (''Unable to open file '' @ quoted path @ '' for reading: '' @ e @ ''.''))
     | None \<Rightarrow>
    (case rd_fseek_end a of
       Some e \<Rightarrow>
         error_cleanup (None, 0,
           sprintf_alloc (rd_msg_alloc a)
             (''Unable to seek to end of file '' @ quoted path @ '': '' @ e @ ''.''))
     | None \<Rightarrow>
    (case rd_ftell a of
       Inl e \<Rightarrow>
         error_cleanup (None, 0,
           sprintf_alloc (rd_msg_alloc a)
             (''Unable to obtain size of file '' @ quoted path @ '': '' @ e @ ''.''))
     | Inr file_size \<Rightarrow>
    (let dest_size = file_size in
     case rd_fseek_set a of
       Some e \<Rightarrow>
         error_cleanup (None, dest_size,
           sprintf_alloc (rd_msg_alloc a)
             (''Unable to seek back to start of file '' @ quoted path @ '': '' @ e @ ''.''))
     | None \<Rightarrow>
    (case rd_malloc a of
       Some e \<Rightarrow>
         error_cleanup (None, dest_size,
           sprintf_alloc (rd_msg_alloc a)
             (''Unable to allocate buffer for reading file '' @ quoted path @ '': '' @ e @ ''.''))
     | None \<Rightarrow>
    (let dest = take dest_size (rd_fread a);
         read_size = length dest
     in
     case rd_ferror a of
       Some e \<Rightarrow>
         error_cleanup (Some dest, dest_size,
           sprintf_alloc (rd_msg_alloc a)
             (''Unable to read '' @ fmt_lu dest_size @ '' bytes from file '' @ quoted path
              @ '': '' @ e @ ''.''))
     | None \<Rightarrow>
    (if read_size \<noteq> dest_size then
       error_cleanup (Some dest, dest_size,
         sprintf_alloc (rd_msg_alloc a)
           (''Unable to read '' @ fmt_lu dest_size @ '' bytes from file '' @ quoted path
            @ '': Got only '' @ fmt_lu read_size @ '' bytes.''))
     else
    (case rd_fclose a of
       Some e \<Rightarrow>
         error_cleanup (Some dest, dest_size,
           sprintf_alloc (rd_msg_alloc a)
             (''Unable to close file '' @ quoted path @ '' after reading: '' @ e @ ''.''))
     | None \<Rightarrow> (Some dest, dest_size, None)))))))))"

text \<open>
  The script of one call of \<^verbatim>\<open>write_file\<close>: \<^verbatim>\<open>fopen\<close>, the number of bytes that
  \<^verbatim>\<open>fwrite\<close> writes, \<^verbatim>\<open>ferror\<close>, \<^verbatim>\<open>fclose\<close>, and \<^verbatim>\<open>malloc\<close> inside \<^verbatim>\<open>sprintf_alloc\<close>.
  The function returns its \<^verbatim>\<open>int\<close> and \<^verbatim>\<open>*error\<close>.
\<close>

record write_script =
  wr_fopen :: "errno option"
  wr_fwrite :: nat
  wr_ferror :: "errno option"
  wr_fclose :: "errno option"
  wr_msg_alloc :: bool

definition write_file :: "write_script \<Rightarrow> string \<Rightarrow> string \<Rightarrow> nat \<Rightarrow> int \<times> string option" where
  "write_file a path src src_size =
    (case wr_fopen a of
       Some e \<Rightarrow>
         (- 1, sprintf_alloc (wr_msg_alloc a)
                 (''Unable to open file '' @ quoted path @ '' for writing: '' @ e @ ''.''))
     | None \<Rightarrow>
    (let written_size = min src_size (wr_fwrite a) in
     case wr_ferror a of
       Some e \<Rightarrow>
         (- 1, sprintf_alloc (wr_msg_alloc a)
                 (''Unable to write '' @ fmt_lu src_size @ '' bytes to file '' @ quoted path
                  @ '': '' @ e @ ''.''))
     | None \<Rightarrow>
    (if written_size \<noteq> src_size then
       (- 1, sprintf_alloc (wr_msg_alloc a)
               (''Unable to write '' @ fmt_lu src_size @ '' bytes to file '' @ quoted path
                @ '': Only '' @ fmt_lu written_size @ '' bytes were written.''))
     else
    (case wr_fclose a of
       Some e \<Rightarrow>
         (- 1, sprintf_alloc (wr_msg_alloc a)
                 (''Unable to close file '' @ quoted path @ '' after writing: '' @ e @ ''.''))
     | None \<Rightarrow> (0, None)))))"

subsection \<open>\<^verbatim>\<open>texcaller_convert\<close>\<close>

text \<open>
  What \<^verbatim>\<open>waitpid\<close> reports: failure (\<^verbatim>\<open>-1\<close>), \<^verbatim>\<open>WIFSIGNALED\<close> with \<^verbatim>\<open>WTERMSIG\<close>,
  \<^verbatim>\<open>WIFEXITED\<close> with \<^verbatim>\<open>WEXITSTATUS\<close>, or a status that is neither.
\<close>

datatype wait_ans = Wait_failed errno | Signaled int | Exited int | Not_terminated

text \<open>The script of one round of the loop: \<^verbatim>\<open>fork\<close>, the successive answers of
  \<^verbatim>\<open>waitpid\<close>, and the two calls of \<^verbatim>\<open>read_file\<close>.\<close>

record run_script =
  run_fork :: "errno option"
  run_wait :: "wait_ans list"
  run_aux :: read_script
  run_dest :: read_script

text \<open>
  The script of one call of \<^verbatim>\<open>texcaller_convert\<close>.  \<open>env_mkdtemp\<close> is, when \<^verbatim>\<open>mkdtemp\<close>
  succeeds, the six characters it puts in place of \<^verbatim>\<open>XXXXXX\<close>, and when it fails, its
  error and the six characters it leaves there (it writes to the template before
  it fails); \<open>env_run\<close> gives
  the script of each round by its number; the \<open>alloc\<close> fields answer \<^verbatim>\<open>malloc\<close> inside
  the calls of \<^verbatim>\<open>sprintf_alloc\<close>: one for each of the five path names, one for the
  message that \<^verbatim>\<open>*info\<close> is set to before \<^verbatim>\<open>goto cleanup\<close> (a call formats at most one
  of them), one for joining the message and the log.
\<close>

record env =
  env_TMPDIR :: "string option"
  env_template_alloc :: bool
  env_mkdtemp :: "errno \<times> string + string"
  env_src_alloc :: bool
  env_aux_alloc :: bool
  env_log_alloc :: bool
  env_dest_alloc :: bool
  env_write :: write_script
  env_run :: "int \<Rightarrow> run_script"
  env_info_alloc :: bool
  env_log :: read_script
  env_concat_alloc :: bool
  env_remove :: rm_script

text \<open>
  The arguments of the call; \<^verbatim>\<open>src_size\<close> is the length of \<open>src\<close>.  \<^verbatim>\<open>max_runs\<close> and the
  counter \<^verbatim>\<open>runs\<close> are C \<^verbatim>\<open>int\<close>s, here integers with the bound written out.
\<close>

definition INT_MAX :: int where
  "INT_MAX = 2147483647"

record request =
  src :: string
  src_format :: string
  dest_format :: string
  max_runs :: int

text \<open>
  The calls by which the function reaches outside its own memory, in the order it
  makes them: the trace is what the environment sees of the call.
\<close>

datatype event =
  Getenv string
| Mkdtemp string
| Write_file string string
| Fork string string
| Read_file string
| Remove_directory string

text \<open>
  The variables of the function that are live at the label \<^verbatim>\<open>cleanup\<close> or across
  rounds of the loop, the three results \<^verbatim>\<open>*dest\<close>, \<^verbatim>\<open>*dest_size\<close>, \<^verbatim>\<open>*info\<close> among them,
  and the trace so far.
\<close>

record frame =
  dir :: "string option"
  log_filename :: "string option"
  aux :: "string option"
  aux_size :: nat
  dest :: "string option"
  dest_size :: nat
  info :: "string option"
  trace :: "event list"

definition frame0 :: frame where
  "frame0 = \<lparr>dir = None, log_filename = None, aux = None, aux_size = 0,
             dest = None, dest_size = 0, info = None, trace = []\<rparr>"

text \<open>The names fixed before the loop, none of them \<^verbatim>\<open>NULL\<close> there.\<close>

record names =
  cmd :: string
  workdir :: string
  aux_filename :: string
  dest_filename :: string

definition select_cmd :: "string \<Rightarrow> string \<Rightarrow> string option" where
  "select_cmd sf df =
    (if sf = ''TeX'' \<and> df = ''DVI'' then Some ''tex''
     else if sf = ''TeX'' \<and> df = ''PDF'' then Some ''pdftex''
     else if sf = ''LaTeX'' \<and> df = ''DVI'' then Some ''latex''
     else if sf = ''LaTeX'' \<and> df = ''PDF'' then Some ''pdflatex''
     else None)"

text \<open>
  The loop \<^verbatim>\<open>for (;;)\<close> around \<^verbatim>\<open>waitpid\<close>: \<^verbatim>\<open>Some None\<close> is \<^verbatim>\<open>break\<close>, \<^verbatim>\<open>Some (Some i)\<close>
  is \<^verbatim>\<open>goto cleanup\<close> with \<^verbatim>\<open>*info = i\<close>, and \<^verbatim>\<open>None\<close> is a loop that gets no further
  answer and does not return.
\<close>

fun wait_for_child :: "bool \<Rightarrow> string \<Rightarrow> wait_ans list \<Rightarrow> string option option option" where
  "wait_for_child info_ok c [] = None"
| "wait_for_child info_ok c (Wait_failed e # answers) =
    Some (Some (sprintf_alloc info_ok (''Unable to wait for child process: '' @ e @ ''.'')))"
| "wait_for_child info_ok c (Signaled sig # answers) =
    Some (Some (sprintf_alloc info_ok
      (''Command '' @ quoted c @ '' was terminated by signal '' @ fmt_i sig @ ''.'')))"
| "wait_for_child info_ok c (Exited status # answers) =
    (if status \<noteq> 0 then
       Some (Some (sprintf_alloc info_ok
         (''Command '' @ quoted c @ '' terminated with exit status '' @ fmt_i status @ ''.'')))
     else Some None)"
| "wait_for_child info_ok c (Not_terminated # answers) = wait_for_child info_ok c answers"

text \<open>\<^verbatim>\<open>memcmp(a, b, n) == 0\<close>; nothing is read through a \<^verbatim>\<open>NULL\<close> pointer when \<open>n\<close>
  is 0.\<close>

fun buffer :: "string option \<Rightarrow> string" where
  "buffer None = []"
| "buffer (Some bytes) = bytes"

definition memcmp_zero :: "string option \<Rightarrow> string option \<Rightarrow> nat \<Rightarrow> bool" where
  "memcmp_zero a b n = (take n (buffer a) = take n (buffer b))"

text \<open>One round of the loop \<^verbatim>\<open>for (runs = 1; runs <= max_runs; runs++)\<close>: it ends at
  the closing brace (\<open>Next\<close>) or in \<^verbatim>\<open>goto cleanup\<close>.\<close>

datatype step = Next frame | Goto_cleanup frame

definition generated_info :: "request \<Rightarrow> nat \<Rightarrow> int \<Rightarrow> string" where
  "generated_info rq n runs =
    ''Generated '' @ dest_format rq @ '' ('' @ fmt_lu n @ '' bytes)''
    @ '' from '' @ src_format rq @ '' ('' @ fmt_lu (length (src rq)) @ '' bytes) after ''
    @ fmt_i runs @ '' runs.''"

definition run_once :: "env \<Rightarrow> request \<Rightarrow> names \<Rightarrow> int \<Rightarrow> frame \<Rightarrow> step option" where
  "run_once env rq nm runs f =
    (let a = env_run env runs;
         f = f\<lparr>trace := trace f @ [Fork (cmd nm) (workdir nm)]\<rparr>
     in
     case run_fork a of
       Some e \<Rightarrow>
         Some (Goto_cleanup
           (f\<lparr>info := sprintf_alloc (env_info_alloc env)
                        (''Unable to fork child process: '' @ e @ ''.'')\<rparr>))
     | None \<Rightarrow>
    (case wait_for_child (env_info_alloc env) (cmd nm) (run_wait a) of
       None \<Rightarrow> None
     | Some (Some i) \<Rightarrow> Some (Goto_cleanup (f\<lparr>info := i\<rparr>))
     | Some None \<Rightarrow>
    (let aux_old = aux f;
         aux_old_size = aux_size f
     in
     case read_file (run_aux a) (aux_filename nm) of (aux_new, aux_new_size, error) \<Rightarrow>
    (let f = f\<lparr>aux := aux_new, aux_size := aux_new_size,
                trace := trace f @ [Read_file (aux_filename nm)]\<rparr>
     in
     if aux_new_size = aux_old_size \<and> memcmp_zero aux_new aux_old aux_new_size then
       (case read_file (run_dest a) (dest_filename nm) of (d, d_size, error) \<Rightarrow>
          (let f = f\<lparr>dest := d, dest_size := d_size,
                      trace := trace f @ [Read_file (dest_filename nm)]\<rparr>
           in
           if d = None then Some (Goto_cleanup (f\<lparr>info := error\<rparr>))
           else Some (Goto_cleanup
                  (f\<lparr>info := sprintf_alloc (env_info_alloc env)
                               (generated_info rq d_size runs)\<rparr>))))
     else Some (Next f)))))"

text \<open>
  The loop, up to the label \<^verbatim>\<open>cleanup\<close>.  The increment \<^verbatim>\<open>runs++\<close> at \<^verbatim>\<open>INT_MAX\<close> is
  undefined in C: there the model gives no result.
\<close>

function run_loop :: "env \<Rightarrow> request \<Rightarrow> names \<Rightarrow> int \<Rightarrow> frame \<Rightarrow> frame option" where
  "run_loop env rq nm runs f =
    (if runs \<le> max_runs rq then
       (case run_once env rq nm runs f of
          None \<Rightarrow> None
        | Some (Goto_cleanup f') \<Rightarrow> Some f'
        | Some (Next f') \<Rightarrow>
            if runs = INT_MAX then None else run_loop env rq nm (runs + 1) f')
     else
       Some (f\<lparr>info := sprintf_alloc (env_info_alloc env)
                    (''Output didn'' @ [SQ] @ ''t stabilize after '' @ fmt_i (max_runs rq)
                     @ '' runs.'')\<rparr>))"
  by pat_completeness auto
termination
  by (relation "measure (\<lambda>(env, rq, nm, runs, f). nat (max_runs rq + 1 - runs))") auto

declare run_loop.simps [simp del]

text \<open>
  The function from its first statement to the loop: \<open>Inl f\<close> is \<^verbatim>\<open>goto cleanup\<close> with
  the variables \<open>f\<close>, \<open>Inr (nm, f)\<close> is the entry of the loop.
\<close>

definition before_loop :: "env \<Rightarrow> request \<Rightarrow> frame + names \<times> frame" where
  "before_loop env rq =
    (let f = frame0 in
     case select_cmd (src_format rq) (dest_format rq) of
       None \<Rightarrow>
         Inl (f\<lparr>info := sprintf_alloc (env_info_alloc env)
                      (''Unable to convert from '' @ quoted (src_format rq) @ '' to ''
                       @ quoted (dest_format rq) @ ''.'')\<rparr>)
     | Some c \<Rightarrow>
    (if max_runs rq < 2 then
       Inl (f\<lparr>info := sprintf_alloc (env_info_alloc env)
                    (''Argument max_runs is '' @ fmt_i (max_runs rq) @ '', but must be >= 2.'')\<rparr>)
     else
    (let tmpdir = (case env_TMPDIR env of
                     None \<Rightarrow> ''/tmp''
                   | Some t \<Rightarrow> if t = [] then ''/tmp'' else t);
         f = f\<lparr>trace := trace f @ [Getenv ''TMPDIR'']\<rparr>
     in
     case sprintf_alloc (env_template_alloc env) (tmpdir @ ''/texcaller-temp-XXXXXX'') of
       None \<Rightarrow> Inl f
     | Some dir_template \<Rightarrow>
    (let f = f\<lparr>trace := trace f @ [Mkdtemp dir_template]\<rparr> in
     case env_mkdtemp env of
       Inl (e, left) \<Rightarrow>
         Inl (f\<lparr>info := sprintf_alloc (env_info_alloc env)
                      (''Unable to create temporary directory from template ''
                       @ quoted (take (length dir_template - 6) dir_template @ left)
                       @ '': '' @ e @ ''.'')\<rparr>)
     | Inr six \<Rightarrow>
    (let d = take (length dir_template - 6) dir_template @ six;
         f = f\<lparr>dir := Some d\<rparr>
     in
     case sprintf_alloc (env_src_alloc env) (d @ ''/texput.tex'') of
       None \<Rightarrow> Inl f
     | Some src_filename \<Rightarrow>
    (case sprintf_alloc (env_aux_alloc env) (d @ ''/texput.aux'') of
       None \<Rightarrow> Inl f
     | Some aux_fn \<Rightarrow>
    (case sprintf_alloc (env_log_alloc env) (d @ ''/texput.log'') of
       None \<Rightarrow> Inl f
     | Some log_fn \<Rightarrow>
    (let f = f\<lparr>log_filename := Some log_fn\<rparr> in
     case (if dest_format rq = ''DVI''
           then sprintf_alloc (env_dest_alloc env) (d @ ''/texput.dvi'')
           else sprintf_alloc (env_dest_alloc env) (d @ ''/texput.pdf'')) of
       None \<Rightarrow> Inl f
     | Some dest_fn \<Rightarrow>
    (let f = f\<lparr>trace := trace f @ [Write_file src_filename (src rq)]\<rparr> in
     case write_file (env_write env) src_filename (src rq) (length (src rq)) of
       (rc, error) \<Rightarrow>
         if rc \<noteq> 0 then Inl (f\<lparr>info := error\<rparr>)
         else Inr (\<lparr>cmd = c, workdir = d, aux_filename = aux_fn, dest_filename = dest_fn\<rparr>,
                   f))))))))))"

text \<open>The function from its first statement to the label \<^verbatim>\<open>cleanup\<close>.\<close>

definition before_cleanup :: "env \<Rightarrow> request \<Rightarrow> frame option" where
  "before_cleanup env rq =
    (case before_loop env rq of
       Inl f \<Rightarrow> Some f
     | Inr (nm, f) \<Rightarrow> run_loop env rq nm 1 f)"

text \<open>
  From the label \<^verbatim>\<open>cleanup\<close> to the end.  The log becomes part of \<^verbatim>\<open>*info\<close> as the C
  string at the start of its buffer.
\<close>

definition append_log :: "env \<Rightarrow> frame \<Rightarrow> frame" where
  "append_log env f =
    (case log_filename f of
       None \<Rightarrow> f
     | Some log_fn \<Rightarrow>
         (case read_file (env_log env) log_fn of (log, log_size, error) \<Rightarrow>
            (let f = f\<lparr>trace := trace f @ [Read_file log_fn]\<rparr> in
             case log of
               None \<Rightarrow> f
             | Some log_bytes \<Rightarrow>
                 (case info f of
                    None \<Rightarrow> f\<lparr>info := Some (c_str log_bytes)\<rparr>
                  | Some info_old \<Rightarrow>
                      f\<lparr>info := sprintf_alloc (env_concat_alloc env)
                                   (info_old @ [LF, LF] @ c_str log_bytes)\<rparr>))))"

definition remove_workspace :: "env \<Rightarrow> frame \<Rightarrow> frame option" where
  "remove_workspace env f =
    (case dir f of
       None \<Rightarrow> Some f
     | Some d \<Rightarrow>
         (case remove_directory_recursively (env_remove env) d of
            None \<Rightarrow> None
          | Some (rc, error) \<Rightarrow>
              (let f = f\<lparr>trace := trace f @ [Remove_directory d]\<rparr> in
               if rc \<noteq> 0 then Some (f\<lparr>dest := None, dest_size := 0, info := error\<rparr>)
               else Some f)))"

definition cleanup :: "env \<Rightarrow> frame \<Rightarrow> frame option" where
  "cleanup env f = remove_workspace env (append_log env f)"

text \<open>
  The whole function.  The caller sees \<open>dest\<close>, \<open>dest_size\<close> and \<open>info\<close> of the frame
  it returns; \<^verbatim>\<open>None\<close> is a call that gives no result: the child is never reported
  as ended, the removal of the workspace dies, or the counter of the loop
  overflows.  The model follows the
  calling process; what the child does between \<^verbatim>\<open>fork\<close> and its end reaches the
  caller through the answers of \<^verbatim>\<open>waitpid\<close> and of the later reads.  (A child in
  which \<^verbatim>\<open>execlp\<close> fails runs on in a copy of the caller's code; the model does not
  follow it.)
\<close>

definition texcaller_convert :: "env \<Rightarrow> request \<Rightarrow> frame option" where
  "texcaller_convert env rq =
    (case before_cleanup env rq of
       None \<Rightarrow> None
     | Some f \<Rightarrow> cleanup env f)"

section \<open>The specification's notions\<close>

subsection \<open>Failures of \<^verbatim>\<open>read_file\<close>\<close>

text \<open>
  The operations that the specification lists for a read, the first of them that
  fails under a script (a short read is a failed read), and the words with which
  a message that names the operation begins.  No two operations share a
  beginning, so a message names one operation at most.
\<close>

datatype operation = Open | Seek | Size_query | Allocate | Read | Close

definition failing_operation :: "read_script \<Rightarrow> operation option" where
  "failing_operation a =
    (if rd_fopen a \<noteq> None then Some Open
     else if rd_fseek_end a \<noteq> None then Some Seek
     else if isl (rd_ftell a) then Some Size_query
     else if rd_fseek_set a \<noteq> None then Some Seek
     else if rd_malloc a \<noteq> None then Some Allocate
     else if rd_ferror a \<noteq> None then Some Read
     else if length (rd_fread a) < projr (rd_ftell a) then Some Read
     else if rd_fclose a \<noteq> None then Some Close
     else None)"

fun operation_phrase :: "operation \<Rightarrow> string" where
  "operation_phrase Open = ''Unable to open''"
| "operation_phrase Seek = ''Unable to seek''"
| "operation_phrase Size_query = ''Unable to obtain size''"
| "operation_phrase Allocate = ''Unable to allocate''"
| "operation_phrase Read = ''Unable to read''"
| "operation_phrase Close = ''Unable to close''"

definition names_failure :: "string \<Rightarrow> operation \<Rightarrow> string \<Rightarrow> bool" where
  "names_failure path opn m \<longleftrightarrow> prefix (operation_phrase opn) m \<and> sublist (quoted path) m"

subsection \<open>Errors of a directory traversal\<close>

text \<open>
  The errors of the steps of one traversal, in the order of the steps: listing the
  directory, each entry, closing the directory.  A step contributes \<^verbatim>\<open>None\<close> when
  it succeeds and when its message could not be allocated: such an error is not
  recorded.  \<open>earliest\<close> is the first error recorded, \<open>rmdir_failure\<close> the answer of
  the final \<^verbatim>\<open>rmdir\<close> when it fails, with the message for it.  \<open>names_allocated\<close>
  says that the path name of every entry can be allocated.
\<close>

fun entry_error :: "string \<Rightarrow> dirent \<Rightarrow> string option" where
  "entry_error dirname (Dirent d_name name_ok msg_ok t) =
    (if d_name = ''.'' \<or> d_name = ''..'' then None
     else
       (case sprintf_alloc name_ok (dirname @ ''/'' @ d_name) of
          None \<Rightarrow> sprintf_alloc msg_ok ''Out of memory.''
        | Some name \<Rightarrow>
            (case t of
               DT_DIR sub \<Rightarrow>
                 (case remove_directory_recursively sub name of
                    None \<Rightarrow> None
                  | Some (rc, sub_error) \<Rightarrow> if rc \<noteq> 0 then sub_error else None)
             | DT_OTHER unlink_ans \<Rightarrow>
                 (case unlink_ans of
                    None \<Rightarrow> None
                  | Some e \<Rightarrow>
                      sprintf_alloc msg_ok
                        (''Unable to remove file '' @ quoted name @ '': '' @ e @ ''.'')))))"

fun traversal_errors :: "rm_script \<Rightarrow> string \<Rightarrow> string option list" where
  "traversal_errors (Rm_script opendir_ans entries closedir_ans rmdir_ans msg_ok rmdir_msg_ok) dirname =
    (case opendir_ans of
       Some e \<Rightarrow>
         [sprintf_alloc msg_ok
            (''Unable to read directory entries of '' @ quoted dirname @ '': '' @ e @ ''.'')]
     | None \<Rightarrow>
         map (entry_error dirname) entries
         @ [case closedir_ans of
              None \<Rightarrow> None
            | Some e \<Rightarrow>
                sprintf_alloc msg_ok
                  (''Unable to close directory '' @ quoted dirname @ '': '' @ e @ ''.'')])"

fun earliest :: "string option list \<Rightarrow> string option" where
  "earliest [] = None"
| "earliest (None # errors) = earliest errors"
| "earliest (Some m # errors) = Some m"

fun rmdir_failure :: "rm_script \<Rightarrow> string \<Rightarrow> (string \<times> bool) option" where
  "rmdir_failure (Rm_script opendir_ans entries closedir_ans rmdir_ans msg_ok rmdir_msg_ok) dirname =
    (case rmdir_ans of
       None \<Rightarrow> None
     | Some e \<Rightarrow>
         Some (''Unable to remove directory '' @ quoted dirname @ '': '' @ e @ ''.'',
               rmdir_msg_ok))"

fun names_allocated :: "rm_script \<Rightarrow> bool"
and names_allocated_entries :: "dirent list \<Rightarrow> bool" where
  "names_allocated (Rm_script opendir_ans entries closedir_ans rmdir_ans msg_ok rmdir_msg_ok) =
     names_allocated_entries entries"
| "names_allocated_entries [] = True"
| "names_allocated_entries (Dirent d_name name_ok msg_ok t # entries) =
     ((d_name = ''.'' \<or> d_name = ''..'' \<or>
       (name_ok \<and> (case t of DT_DIR sub \<Rightarrow> names_allocated sub | DT_OTHER unlink_ans \<Rightarrow> True)))
      \<and> names_allocated_entries entries)"

subsection \<open>The conversion\<close>

text \<open>The supported pairs of formats and the command of each, as the specification lists
  them.\<close>

definition engine_table :: "((string \<times> string) \<times> string) list" where
  "engine_table =
    [((''TeX'', ''DVI''), ''tex''),
     ((''TeX'', ''PDF''), ''pdftex''),
     ((''LaTeX'', ''DVI''), ''latex''),
     ((''LaTeX'', ''PDF''), ''pdflatex'')]"

text \<open>
  The child ended with exit status zero: the first answer of \<^verbatim>\<open>waitpid\<close> that reports
  an end reports \<^verbatim>\<open>WIFEXITED\<close> with status 0.
\<close>

fun exited_zero :: "wait_ans list \<Rightarrow> bool" where
  "exited_zero [] = False"
| "exited_zero (Not_terminated # answers) = exited_zero answers"
| "exited_zero (Exited status # answers) = (status = 0)"
| "exited_zero (Signaled sig # answers) = False"
| "exited_zero (Wait_failed e # answers) = False"

text \<open>
  The bytes of the auxiliary file as read after round \<open>k\<close> (none when it could not be
  read, none before the first round), and a round that ends with exit status zero
  and an auxiliary file that differs from the one before.
\<close>

definition aux_after :: "env \<Rightarrow> names \<Rightarrow> int \<Rightarrow> string" where
  "aux_after env nm k =
    (if k < 1 then []
     else buffer (fst (read_file (run_aux (env_run env k)) (aux_filename nm))))"

definition unstable_round :: "env \<Rightarrow> names \<Rightarrow> int \<Rightarrow> bool" where
  "unstable_round env nm k \<longleftrightarrow>
     run_fork (env_run env k) = None \<and> exited_zero (run_wait (env_run env k))
     \<and> aux_after env nm k \<noteq> aux_after env nm (k - 1)"

definition exhausted_text :: "request \<Rightarrow> string" where
  "exhausted_text rq =
     ''Output didn'' @ [SQ] @ ''t stabilize after '' @ fmt_i (max_runs rq) @ '' runs.''"

text \<open>
  The two states of a result.  A diagnostic describes success when it starts with
  the sentence of the successful exit, and a failure when it starts as one of the
  messages of the failing exits does.
\<close>

definition describes_success :: "string \<Rightarrow> bool" where
  "describes_success m \<longleftrightarrow> prefix ''Generated '' m"

definition describes_failure :: "string \<Rightarrow> bool" where
  "describes_failure m \<longleftrightarrow>
     prefix ''Unable to '' m \<or> prefix ''Argument max_runs is '' m \<or> prefix ''Command '' m
     \<or> prefix (''Output didn'' @ [SQ] @ ''t stabilize after '') m \<or> prefix ''Out of memory.'' m"

definition success_state :: "frame \<Rightarrow> bool" where
  "success_state r \<longleftrightarrow>
     (case dest r of
        None \<Rightarrow> False
      | Some bytes \<Rightarrow>
          dest_size r = length bytes
          \<and> (case info r of None \<Rightarrow> False | Some m \<Rightarrow> describes_success m))"

definition failure_state :: "frame \<Rightarrow> bool" where
  "failure_state r \<longleftrightarrow>
     dest r = None \<and> dest_size r = 0
     \<and> (case info r of None \<Rightarrow> False | Some m \<Rightarrow> describes_failure m)"

text \<open>
  The answers of \<^verbatim>\<open>malloc\<close> on which a diagnostic depends are all positive: for the
  path names, for the messages of \<^verbatim>\<open>texcaller_convert\<close>, of \<^verbatim>\<open>write_file\<close>, of the read of
  the destination file in each round, and of the final \<^verbatim>\<open>rmdir\<close>.
\<close>

fun rmdir_msg_alloc :: "rm_script \<Rightarrow> bool" where
  "rmdir_msg_alloc (Rm_script opendir_ans entries closedir_ans rmdir_ans msg_ok rmdir_msg_ok) =
     rmdir_msg_ok"

definition messages_allocated :: "env \<Rightarrow> request \<Rightarrow> bool" where
  "messages_allocated env rq \<longleftrightarrow>
     env_template_alloc env \<and> env_src_alloc env \<and> env_aux_alloc env \<and> env_log_alloc env
     \<and> env_dest_alloc env \<and> env_info_alloc env \<and> env_concat_alloc env
     \<and> wr_msg_alloc (env_write env)
     \<and> (\<forall>k\<in>{1..max_runs rq}. rd_msg_alloc (run_dest (env_run env k)))
     \<and> rmdir_msg_alloc (env_remove env)"

text \<open>Inside the loop nothing is decided yet; at the label \<^verbatim>\<open>cleanup\<close> one of the two
  states holds.\<close>

definition pending :: "frame \<Rightarrow> bool" where
  "pending f \<longleftrightarrow> dest f = None \<and> dest_size f = 0 \<and> info f = None"

definition settled :: "frame \<Rightarrow> bool" where
  "settled f \<longleftrightarrow> success_state f \<or> failure_state f"

section \<open>Example scripts\<close>

text \<open>
  Concrete answers on which the theorems below are evaluated: a file with given
  bytes, a missing file, a file shorter than its measured size; a directory that
  is removed and one that is not; a conversion that succeeds in its first round,
  one whose auxiliary file changes in every round, one whose workspace cannot be
  removed, one whose first allocation fails, and one whose diagnostic cannot be
  allocated.
\<close>

definition file_with :: "string \<Rightarrow> read_script" where
  "file_with bytes =
    \<lparr>rd_fopen = None, rd_fseek_end = None, rd_ftell = Inr (length bytes),
     rd_fseek_set = None, rd_malloc = None, rd_fread = bytes, rd_ferror = None,
     rd_fclose = None, rd_msg_alloc = True\<rparr>"

definition no_file :: read_script where
  "no_file = (file_with [])\<lparr>rd_fopen := Some ''No such file or directory''\<rparr>"

definition short_file :: read_script where
  "short_file = (file_with ''abc'')\<lparr>rd_ftell := Inr 5\<rparr>"

definition emptied_directory :: rm_script where
  "emptied_directory =
    Rm_script None
      [Dirent ''.'' True True (DT_DIR (Rm_script None [] None None True True)),
       Dirent ''..'' True True (DT_DIR (Rm_script None [] None None True True)),
       Dirent ''texput.tex'' True True (DT_OTHER None),
       Dirent ''texput.log'' True True (DT_OTHER None)]
      None None True True"

definition stuck_directory :: rm_script where
  "stuck_directory =
    Rm_script None
      [Dirent ''texput.tex'' True True (DT_OTHER None),
       Dirent ''sub'' True True
         (DT_DIR (Rm_script None [Dirent ''a'' True True (DT_OTHER (Some ''Permission denied''))]
                   None (Some ''Directory not empty'') True True)),
       Dirent ''texput.log'' True True (DT_OTHER (Some ''Permission denied''))]
      None (Some ''Directory not empty'') True True"

definition writes_all :: write_script where
  "writes_all = \<lparr>wr_fopen = None, wr_fwrite = 5, wr_ferror = None, wr_fclose = None,
                 wr_msg_alloc = True\<rparr>"

definition plain_run :: run_script where
  "plain_run = \<lparr>run_fork = None, run_wait = [Exited 0], run_aux = no_file,
                 run_dest = file_with ''%PDF''\<rparr>"

definition plain_env :: env where
  "plain_env =
    \<lparr>env_TMPDIR = None, env_template_alloc = True, env_mkdtemp = Inr ''abcdef'',
     env_src_alloc = True, env_aux_alloc = True, env_log_alloc = True, env_dest_alloc = True,
     env_write = writes_all, env_run = (\<lambda>k. plain_run), env_info_alloc = True,
     env_log = file_with ''log'', env_concat_alloc = True, env_remove = emptied_directory\<rparr>"

definition plain_request :: request where
  "plain_request = \<lparr>src = ''hello'', src_format = ''TeX'', dest_format = ''PDF'', max_runs = 2\<rparr>"

definition plain_names :: names where
  "plain_names = \<lparr>cmd = ''pdftex'', workdir = ''/tmp/texcaller-temp-abcdef'',
                   aux_filename = ''/tmp/texcaller-temp-abcdef/texput.aux'',
                   dest_filename = ''/tmp/texcaller-temp-abcdef/texput.pdf''\<rparr>"

definition plain_frame :: frame where
  "plain_frame = frame0\<lparr>dir := Some ''/tmp/texcaller-temp-abcdef'',
       log_filename := Some ''/tmp/texcaller-temp-abcdef/texput.log'',
       trace := [Getenv ''TMPDIR'', Mkdtemp ''/tmp/texcaller-temp-XXXXXX'',
                 Write_file ''/tmp/texcaller-temp-abcdef/texput.tex'' ''hello'']\<rparr>"

definition plain_done :: frame where
  "plain_done = plain_frame\<lparr>dest := Some ''%PDF'', dest_size := 4,
      info := Some ''Generated PDF (4 bytes) from TeX (5 bytes) after 1 runs.'',
      trace := trace plain_frame @ [Fork ''pdftex'' ''/tmp/texcaller-temp-abcdef'',
         Read_file ''/tmp/texcaller-temp-abcdef/texput.aux'',
         Read_file ''/tmp/texcaller-temp-abcdef/texput.pdf'']\<rparr>"

definition stuck_env :: env where
  "stuck_env = plain_env\<lparr>env_remove := stuck_directory\<rparr>"

definition growing_run :: "int \<Rightarrow> run_script" where
  "growing_run k = plain_run\<lparr>run_aux := file_with (fmt_i k)\<rparr>"

definition growing_env :: env where
  "growing_env = plain_env\<lparr>env_run := growing_run\<rparr>"

definition growing_stuck_env :: env where
  "growing_stuck_env = growing_env\<lparr>env_remove := stuck_directory\<rparr>"

definition starved_env :: env where
  "starved_env = plain_env\<lparr>env_template_alloc := False\<rparr>"

definition mute_env :: env where
  "mute_env = plain_env\<lparr>env_info_alloc := False\<rparr>"

definition silent_no_file :: read_script where
  "silent_no_file = no_file\<lparr>rd_msg_alloc := False\<rparr>"

definition silent_stuck_directory :: rm_script where
  "silent_stuck_directory = Rm_script None [] None (Some ''Permission denied'') True False"

definition postscript_request :: request where
  "postscript_request = plain_request\<lparr>dest_format := ''PostScript''\<rparr>"

definition single_run_request :: request where
  "single_run_request = plain_request\<lparr>max_runs := 1\<rparr>"

section \<open>Properties\<close>

subsection \<open>The escaper\<close>

lemma substitute_escape_latex_char:
  "substitute c = (case escape_latex_char c of None \<Rightarrow> [c] | Some r \<Rightarrow> r)"
  by (simp add: substitute_def substitution_table_def escape_latex_char_def)

lemma escape_fill_concat:
  "escape_fill s out = out @ concat (map substitute (c_str s))"
  by (induction s arbitrary: out)
     (simp_all add: c_str_def substitute_escape_latex_char split: option.splits)

lemma escaped_length_fill:
  "escaped_length s len = len + length (concat (map substitute (c_str s)))"
  by (induction s arbitrary: len)
     (simp_all add: c_str_def substitute_escape_latex_char split: option.splits)

text \<open>
  C6.  \<^verbatim>\<open>texcaller_escape_latex\<close> returns \<^verbatim>\<open>NULL\<close> when its buffer cannot be
  allocated, and otherwise the concatenation of the table's replacement for each
  character of its argument (the characters before the terminating NUL), a
  character outside the table standing for itself; the argument \<^verbatim>\<open>100% & $5_free\<close> gives
  \<^verbatim>\<open>100\% \& \$5\_free\<close>.
\<close>

theorem texcaller_escape_latex_table:
  "texcaller_escape_latex malloc_ok s
     = (if malloc_ok then Some (concat (map substitute (c_str s))) else None)
   \<and> texcaller_escape_latex True ''100% & $5_free''
       = Some (''100'' @ [BS] @ ''% '' @ [BS] @ ''& '' @ [BS] @ ''$5'' @ [BS] @ ''_free'')"
  by (simp add: texcaller_escape_latex_def escape_fill_concat substitute_def
      substitution_table_def c_str_def)

subsection \<open>Reading a file\<close>

lemma sprintf_alloc_eq: "sprintf_alloc ok t = (if ok \<and> t \<noteq> [] then Some t else None)"
  by (simp add: sprintf_alloc_def)

lemma read_file_failure:
  assumes "failing_operation a = Some opn"
  shows "fst (read_file a path) = None \<and> fst (snd (read_file a path)) = 0"
  using assms
  by (auto simp: failing_operation_def read_file_def error_cleanup_def Let_def
           split: if_splits option.splits sum.splits)

lemma read_file_success:
  assumes "failing_operation a = None"
  shows "read_file a path = (Some (take (projr (rd_ftell a)) (rd_fread a)), projr (rd_ftell a), None)"
  using assms
  by (auto simp: failing_operation_def read_file_def error_cleanup_def Let_def
           split: if_splits option.splits sum.splits)

lemma operation_named:
  "prefix ''Unable to open'' ''Unable to open file ''"
  "prefix ''Unable to seek'' ''Unable to seek to end of file ''"
  "prefix ''Unable to obtain size'' ''Unable to obtain size of file ''"
  "prefix ''Unable to seek'' ''Unable to seek back to start of file ''"
  "prefix ''Unable to allocate'' ''Unable to allocate buffer for reading file ''"
  "prefix ''Unable to read'' ''Unable to read ''"
  "prefix ''Unable to close'' ''Unable to close file ''"
  by simp_all

lemma names_failureI:
  assumes "prefix w p"
  shows "prefix w (p @ quoted path @ r) \<and> sublist (quoted path) (p @ quoted path @ r)"
  using assms by (simp add: sublist_append)

lemma names_failureI2:
  assumes "prefix w p"
  shows "prefix w (p @ n @ q @ quoted path @ r)
         \<and> sublist (quoted path) (p @ n @ q @ quoted path @ r)"
  using assms by (simp add: sublist_append)

lemma sublist_fourth: "sublist x (p @ n @ q @ x @ r)"
  by (metis append_assoc sublist_appendI)

text \<open>A message begins as the message of one operation at most.\<close>

lemma operation_phrase_distinct:
  assumes "prefix (operation_phrase a) m" and "prefix (operation_phrase b) m"
  shows "a = b"
proof -
  from assms have "prefix (operation_phrase a) (operation_phrase b)
                   \<or> prefix (operation_phrase b) (operation_phrase a)"
    by (rule prefix_same_cases)
  then show ?thesis
    by (cases a; cases b) simp_all
qed

lemma read_file_error_names:
  assumes "failing_operation a = Some opn"
  shows "case snd (snd (read_file a path)) of
           None \<Rightarrow> \<not> rd_msg_alloc a
         | Some m \<Rightarrow> rd_msg_alloc a \<and> names_failure path opn m"
proof -
  note n = operation_named [THEN names_failureI, of path]
       operation_named(6) [THEN names_failureI2, of path]
  show ?thesis
  using assms
  by (auto simp: failing_operation_def read_file_def error_cleanup_def Let_def names_failure_def
        sprintf_alloc_eq n sublist_fourth
           simp del: append.simps
           split: if_splits option.splits sum.splits)
qed

text \<open>
  C7, as amended.  When an operation of a read fails, \<^verbatim>\<open>*dest\<close> is \<^verbatim>\<open>NULL\<close> and
  \<^verbatim>\<open>*dest_size\<close> is 0; \<^verbatim>\<open>*error\<close> is a message that begins with the words for the
  operation that failed and contains the quoted path when \<^verbatim>\<open>sprintf_alloc\<close> can
  allocate it, and \<^verbatim>\<open>NULL\<close> when it cannot.  When no operation fails, \<^verbatim>\<open>*dest\<close> holds
  the bytes of the file, \<^verbatim>\<open>*dest_size\<close> is their number, the size that \<^verbatim>\<open>ftell\<close>
  measured, and \<^verbatim>\<open>*error\<close> is \<^verbatim>\<open>NULL\<close>.
\<close>

theorem read_file_no_partial_result:
  assumes "read_file a path = (d, n, e)"
  shows "case failing_operation a of
           Some opn \<Rightarrow>
             d = None \<and> n = 0
             \<and> (case e of
                  None \<Rightarrow> \<not> rd_msg_alloc a
                | Some m \<Rightarrow> rd_msg_alloc a \<and> names_failure path opn m)
         | None \<Rightarrow> d = Some (take n (rd_fread a)) \<and> length (take n (rd_fread a)) = n
                   \<and> rd_ftell a = Inr n \<and> e = None"
proof (cases "failing_operation a")
  case None
  with read_file_success [OF None, of path] assms show ?thesis
    by (auto simp: failing_operation_def split: if_splits sum.splits)
next
  case (Some opn)
  with read_file_failure [OF Some, of path] read_file_error_names [OF Some, of path] assms
  show ?thesis by simp
qed

theorem read_file_no_partial_result_witness:
  "read_file short_file ''/tmp/w/texput.aux''
     = (None, 0, Some (''Unable to read 5 bytes from file '' @ quoted ''/tmp/w/texput.aux''
                       @ '': Got only 3 bytes.''))
   \<and> failing_operation short_file = Some Read
   \<and> names_failure ''/tmp/w/texput.aux'' Read
        (''Unable to read 5 bytes from file '' @ quoted ''/tmp/w/texput.aux''
         @ '': Got only 3 bytes.'')"
proof -
  have r: "read_file short_file ''/tmp/w/texput.aux''
     = (None, 0, Some (''Unable to read 5 bytes from file '' @ quoted ''/tmp/w/texput.aux''
                       @ '': Got only 3 bytes.''))"
    by (simp add: read_file_def short_file_def file_with_def error_cleanup_def
        sprintf_alloc_def fmt_lu.simps digit_char_def quoted_def)
  have f: "failing_operation short_file = Some Read"
    by (simp add: failing_operation_def short_file_def file_with_def)
  from read_file_no_partial_result [OF r]
  have "names_failure ''/tmp/w/texput.aux'' Read
        (''Unable to read 5 bytes from file '' @ quoted ''/tmp/w/texput.aux''
         @ '': Got only 3 bytes.'')"
    unfolding f by simp
  with r f show ?thesis by blast
qed

text \<open>
  C7 as stated fails: the file cannot be opened and the message cannot be
  allocated, so the read fails with \<^verbatim>\<open>*error\<close> \<^verbatim>\<open>NULL\<close>: no message names the path or
  the operation.
\<close>

theorem read_failure_unnamed:
  "failing_operation silent_no_file = Some Open
   \<and> read_file silent_no_file ''/tmp/w/texput.aux'' = (None, 0, None)"
  by (simp add: failing_operation_def read_file_def silent_no_file_def no_file_def file_with_def
      error_cleanup_def sprintf_alloc_def)

subsection \<open>Removing a directory\<close>

lemma earliest_single: "earliest [e] = e"
  by (cases e) simp_all

lemma earliest_append:
  "earliest (xs @ ys) = (case earliest xs of None \<Rightarrow> earliest ys | Some m \<Rightarrow> Some m)"
  by (induction xs rule: earliest.induct) simp_all

lemma remove_entries_earliest:
  assumes "remove_entries es dirname error = Some error'"
  shows "error' = (case error of
                     Some m \<Rightarrow> Some m
                   | None \<Rightarrow> earliest (map (entry_error dirname) es))"
  using assms
proof (induction es arbitrary: error)
  case Nil
  then show ?case by (simp split: option.splits)
next
  case (Cons entry es)
  obtain d_name name_ok msg_ok t where entry: "entry = Dirent d_name name_ok msg_ok t"
    by (cases entry)
  from Cons.prems show ?case
    unfolding entry
    by (cases error; cases "earliest [entry_error dirname (Dirent d_name name_ok msg_ok t)]")
       (auto simp: Let_def split: d_type.splits prod.splits option.splits if_splits
             dest!: Cons.IH)
qed

lemma names_allocated_returns:
  "names_allocated s \<Longrightarrow> remove_directory_recursively s d \<noteq> None"
  "names_allocated_entries es \<Longrightarrow> remove_entries es d error \<noteq> None"
proof (induction s d and es d error rule: remove_directory_recursively_remove_entries.induct)
  case (1 opendir_ans entries closedir_ans rmdir_ans msg_ok rmdir_msg_ok dirname)
  show ?case
  proof (cases opendir_ans)
    case (Some e)
    then show ?thesis by (simp add: Let_def)
  next
    case None
    have "remove_entries entries dirname None \<noteq> None"
      using None "1.prems" by (intro "1.IH") simp_all
    with None show ?thesis by (auto simp: Let_def)
  qed
next
  case (2 dirname error)
  show ?case by simp
next
  case (3 d_name name_ok msg_ok d_type entries dirname error)
  show ?case
  proof (cases "d_name = ''.'' \<or> d_name = ''..''")
    case True
    with "3.IH"(1) "3.prems" show ?thesis by simp
  next
    case False
    with "3.prems" have ok: "name_ok" and rest: "names_allocated_entries entries"
      by simp_all
    show ?thesis
      using "3.IH"(2-) False ok rest "3.prems"
      by (cases d_type) (auto simp: Let_def sprintf_alloc_eq split: option.splits prod.splits)
  qed
qed

text \<open>
  C2, as amended.  A call returns whenever the path names of the entries can be
  allocated.  A call that returns gives 0 and \<^verbatim>\<open>NULL\<close> when the final \<^verbatim>\<open>rmdir\<close>
  succeeds, whatever happened before.  When the final \<^verbatim>\<open>rmdir\<close> fails it gives -1,
  and \<^verbatim>\<open>*error\<close> is the earliest error recorded during the traversal if there is
  one; otherwise it is the message about the \<^verbatim>\<open>rmdir\<close> when that message can be
  allocated, and \<^verbatim>\<open>NULL\<close> when it cannot.
\<close>

theorem remove_directory_recursively_result:
  "case remove_directory_recursively s dirname of
     None \<Rightarrow> \<not> names_allocated s
   | Some (rc, error) \<Rightarrow>
       (case rmdir_failure s dirname of
          None \<Rightarrow> rc = 0 \<and> error = None
        | Some (message, message_ok) \<Rightarrow>
            rc = - 1
            \<and> error = (case earliest (traversal_errors s dirname) of
                         Some m \<Rightarrow> Some m
                       | None \<Rightarrow> if message_ok then Some message else None))"
proof (cases "remove_directory_recursively s dirname")
  case None
  with names_allocated_returns(1) [of s dirname] show ?thesis by auto
next
  case (Some result)
  obtain rc error where result: "result = (rc, error)" by (cases result)
  obtain opendir_ans entries closedir_ans rmdir_ans msg_ok rmdir_msg_ok where
    s: "s = Rm_script opendir_ans entries closedir_ans rmdir_ans msg_ok rmdir_msg_ok"
    by (cases s)
  show ?thesis
  proof (cases opendir_ans)
    case (Some e)
    with \<open>remove_directory_recursively s dirname = Some result\<close> show ?thesis
      unfolding s result
      by (auto simp: Let_def earliest_single sprintf_alloc_eq split: option.splits if_splits)
  next
    case None
    with \<open>remove_directory_recursively s dirname = Some result\<close>
    obtain error' where e: "remove_entries entries dirname None = Some error'"
      unfolding s by (auto simp: Let_def split: option.splits)
    from remove_entries_earliest [OF e]
    have e': "error' = earliest (map (entry_error dirname) entries)" by simp
    from \<open>remove_directory_recursively s dirname = Some result\<close> None show ?thesis
      unfolding s result
      by (auto simp: Let_def e e' earliest_append earliest_single sprintf_alloc_eq
               split: option.splits if_splits)
  qed
qed

theorem remove_directory_recursively_result_witness:
  "remove_directory_recursively stuck_directory ''/tmp/w''
     = Some (- 1, Some (''Unable to remove file '' @ quoted ''/tmp/w/sub/a''
                        @ '': Permission denied.''))
   \<and> remove_directory_recursively emptied_directory ''/tmp/w'' = Some (0, None)"
  using remove_directory_recursively_result [of stuck_directory "''/tmp/w''"]
        remove_directory_recursively_result [of emptied_directory "''/tmp/w''"]
  by (simp add: stuck_directory_def emptied_directory_def sprintf_alloc_def quoted_def)

text \<open>
  C2 as stated fails: the final \<^verbatim>\<open>rmdir\<close> fails, no error was recorded before, and
  the message about the \<^verbatim>\<open>rmdir\<close> cannot be allocated; the function returns -1 with
  \<^verbatim>\<open>*error\<close> \<^verbatim>\<open>NULL\<close>, not the failure of the \<^verbatim>\<open>rmdir\<close>.
\<close>

theorem rmdir_failure_unreported:
  "remove_directory_recursively silent_stuck_directory ''/tmp/w'' = Some (- 1, None)
   \<and> earliest (traversal_errors silent_stuck_directory ''/tmp/w'') = None"
  by (simp add: silent_stuck_directory_def sprintf_alloc_def)

subsection \<open>The conversion: auxiliary facts\<close>

lemma select_cmd_table: "select_cmd sf df = map_of engine_table (sf, df)"
  by (simp add: select_cmd_def engine_table_def)

lemma cleanup_no_workspace:
  "dir f = None \<Longrightarrow> log_filename f = None \<Longrightarrow> cleanup env f = Some f"
  by (simp add: cleanup_def append_log_def remove_workspace_def)

lemma dir_append_log: "dir (append_log env f) = dir f"
  by (simp add: append_log_def Let_def split: option.splits prod.splits)

lemma read_no_file: "read_file no_file p = (None, 0, Some (''Unable to open file '' @ quoted p @ '' for reading: No such file or directory.''))"
  by (simp add: read_file_def no_file_def file_with_def error_cleanup_def sprintf_alloc_def)

lemma read_file_with: "read_file (file_with bytes) p = (Some bytes, length bytes, None)"
  by (simp add: read_file_def file_with_def)

lemma plain_before_loop: "before_loop plain_env plain_request = Inr (plain_names, plain_frame)"
  by (simp add: before_loop_def plain_env_def plain_request_def plain_names_def plain_frame_def
      select_cmd_def sprintf_alloc_def write_file_def writes_all_def frame0_def Let_def)

lemma plain_before_cleanup: "before_cleanup plain_env plain_request = Some plain_done"
  unfolding before_cleanup_def plain_before_loop
  by (simp add: run_loop.simps run_once_def Let_def
      plain_env_def plain_request_def plain_run_def read_no_file read_file_with
      plain_names_def plain_frame_def plain_done_def frame0_def memcmp_zero_def
      generated_info_def sprintf_alloc_def fmt_lu.simps fmt_i_def digit_char_def)

lemma wait_for_child_zero: "wait_for_child ok c answers = Some None \<longleftrightarrow> exited_zero answers"
  by (induction ok c answers rule: wait_for_child.induct) simp_all

lemma read_file_size: "read_file a p = (d, n, e) \<Longrightarrow> n = length (buffer d)"
  by (auto simp: read_file_def error_cleanup_def Let_def split: option.splits sum.splits if_splits)

lemma memcmp_zero_buffers:
  "n = length (buffer a) \<Longrightarrow> m = length (buffer b) \<Longrightarrow>
   (n = m \<and> memcmp_zero a b n) \<longleftrightarrow> buffer a = buffer b"
  by (auto simp: memcmp_zero_def)

lemma run_once_exited_zero:
  assumes "run_fork (env_run env runs) = None"
      and "exited_zero (run_wait (env_run env runs))"
      and "aux_size f = length (buffer (aux f))"
      and "read_file (run_aux (env_run env runs)) (aux_filename nm) = (aux_new, aux_new_size, e)"
      and "read_file (run_dest (env_run env runs)) (dest_filename nm) = (d, d_size, error)"
  shows "run_once env rq nm runs f =
     Some (if buffer aux_new = buffer (aux f) then
             Goto_cleanup
               (f\<lparr>aux := aux_new, aux_size := aux_new_size, dest := d, dest_size := d_size,
                  info := (case d of
                             None \<Rightarrow> error
                           | Some bytes \<Rightarrow>
                               sprintf_alloc (env_info_alloc env)
                                 (''Generated '' @ dest_format rq @ '' ('' @ fmt_lu (length bytes)
                                  @ '' bytes) from '' @ src_format rq @ '' (''
                                  @ fmt_lu (length (src rq)) @ '' bytes) after '' @ fmt_i runs
                                  @ '' runs.'')),
                  trace := trace f @ [Fork (cmd nm) (workdir nm), Read_file (aux_filename nm),
                                      Read_file (dest_filename nm)]\<rparr>)
           else
             Next (f\<lparr>aux := aux_new, aux_size := aux_new_size,
                     trace := trace f @ [Fork (cmd nm) (workdir nm),
                                         Read_file (aux_filename nm)]\<rparr>))"
proof -
  have w: "wait_for_child (env_info_alloc env) (cmd nm) (run_wait (env_run env runs)) = Some None"
    using assms(2) by (simp add: wait_for_child_zero)
  have n: "aux_new_size = length (buffer aux_new)"
    using assms(4) by (rule read_file_size)
  have c: "(aux_new_size = aux_size f \<and> memcmp_zero aux_new (aux f) aux_new_size)
           \<longleftrightarrow> buffer aux_new = buffer (aux f)"
    using n assms(3) by (rule memcmp_zero_buffers)
  have s: "d_size = length (buffer d)"
    using assms(5) by (rule read_file_size)
  show ?thesis
    using s
    by (simp add: run_once_def Let_def assms(1,4,5) w c generated_info_def
             split: option.splits)
qed

lemma before_loop_Inr:
  assumes "before_loop env rq = Inr (nm, f)"
  shows "aux f = None \<and> aux_size f = 0 \<and> dest f = None \<and> dest_size f = 0 \<and> info f = None
         \<and> 2 \<le> max_runs rq \<and> dir f = Some (workdir nm)"
  using assms
  by (auto simp: before_loop_def Let_def frame0_def
           split: option.splits sum.splits if_splits prod.splits)

text \<open>The size kept with the snapshot is the length of the snapshot, at the entry of
  the loop and after every round.\<close>

lemma run_once_snapshot_sized:
  assumes "run_once env rq nm runs f = Some (Next f')"
  shows "aux_size f' = length (buffer (aux f'))"
proof -
  obtain aux_new n e where
    r: "read_file (run_aux (env_run env runs)) (aux_filename nm) = (aux_new, n, e)"
    by (cases "read_file (run_aux (env_run env runs)) (aux_filename nm)")
  from read_file_size [OF r] assms show ?thesis
    by (auto simp: run_once_def Let_def r split: option.splits prod.splits if_splits)
qed

text \<open>The variable \<open>dir\<close> is set exactly by a successful \<^verbatim>\<open>mkdtemp\<close>, and the loop does
  not change it.\<close>

lemma run_once_dir:
  "run_once env rq nm runs f = Some (Next f') \<Longrightarrow> dir f' = dir f"
  "run_once env rq nm runs f = Some (Goto_cleanup g) \<Longrightarrow> dir g = dir f"
  by (auto simp: run_once_def Let_def split: option.splits prod.splits if_splits)

lemma run_loop_dir:
  "run_loop env rq nm runs f = Some g \<Longrightarrow> dir g = dir f"
proof (induction env rq nm runs f rule: run_loop.induct)
  case (1 env rq nm runs f)
  show ?case
  proof (cases "runs \<le> max_runs rq")
    case False
    with "1.prems" show ?thesis
      by (auto simp: run_loop.simps [of env rq nm runs f])
  next
    case True
    show ?thesis
    proof (cases "run_once env rq nm runs f")
      case None
      with True "1.prems" show ?thesis
        by (simp add: run_loop.simps [of env rq nm runs f])
    next
      case (Some st)
      show ?thesis
      proof (cases st)
        case (Goto_cleanup g')
        with Some True "1.prems" run_once_dir(2) [of env rq nm runs f g'] show ?thesis
          by (simp add: run_loop.simps [of env rq nm runs f])
      next
        case (Next f')
        with Some True "1.prems"
        have i: "runs \<noteq> INT_MAX" and "run_loop env rq nm (runs + 1) f' = Some g"
          by (auto simp: run_loop.simps [of env rq nm runs f] split: if_splits)
        with "1.IH" [OF True Some Next] have "dir g = dir f'" by simp
        with run_once_dir(1) [of env rq nm runs f f'] Some Next show ?thesis by simp
      qed
    qed
  qed
qed

lemma workspace_created:
  assumes "before_cleanup env rq = Some f" and "dir f = Some d"
  shows "\<exists>six. env_mkdtemp env = Inr six"
proof (cases "before_loop env rq")
  case (Inl g)
  with assms show ?thesis
    by (auto simp: before_cleanup_def before_loop_def Let_def frame0_def
             split: option.splits sum.splits if_splits prod.splits)
next
  case (Inr p)
  obtain nm g where p: "p = (nm, g)" by (cases p)
  with Inr assms have "dir g = Some d"
    by (auto simp: before_cleanup_def dest: run_loop_dir)
  with Inr p show ?thesis
    by (auto simp: before_loop_def Let_def frame0_def
             split: option.splits sum.splits if_splits prod.splits)
qed

lemma run_once_unstable:
  assumes "unstable_round env nm runs" and "1 \<le> runs"
      and "buffer (aux f) = aux_after env nm (runs - 1)"
      and "aux_size f = length (buffer (aux f))"
  shows "\<exists>f'. run_once env rq nm runs f = Some (Next f')
           \<and> buffer (aux f') = aux_after env nm runs
           \<and> aux_size f' = length (buffer (aux f'))
           \<and> dest f' = dest f \<and> dest_size f' = dest_size f \<and> dir f' = dir f
           \<and> log_filename f' = log_filename f \<and> info f' = info f"
proof -
  obtain aux_new n e where r: "read_file (run_aux (env_run env runs)) (aux_filename nm) = (aux_new, n, e)"
    by (cases "read_file (run_aux (env_run env runs)) (aux_filename nm)")
  obtain d d_size error where
    t: "read_file (run_dest (env_run env runs)) (dest_filename nm) = (d, d_size, error)"
    by (cases "read_file (run_dest (env_run env runs)) (dest_filename nm)")
  have n: "n = length (buffer aux_new)"
    using r by (rule read_file_size)
  have a: "aux_after env nm runs = buffer aux_new"
    using assms(2) by (simp add: aux_after_def r)
  have "buffer aux_new \<noteq> buffer (aux f)"
    using assms(1,3) a by (simp add: unstable_round_def)
  with run_once_exited_zero [OF _ _ assms(4) r t, of rq] assms(1)
  have "run_once env rq nm runs f =
     Some (Next (f\<lparr>aux := aux_new, aux_size := n,
                     trace := trace f @ [Fork (cmd nm) (workdir nm),
                                         Read_file (aux_filename nm)]\<rparr>))"
    by (simp add: unstable_round_def)
  then show ?thesis
    using n a by simp
qed

lemma run_loop_unstable:
  assumes "\<forall>k. runs \<le> k \<and> k \<le> max_runs rq \<longrightarrow> unstable_round env nm k"
      and "max_runs rq < INT_MAX"
      and "1 \<le> runs"
      and "buffer (aux f) = aux_after env nm (runs - 1)"
      and "aux_size f = length (buffer (aux f))"
  shows "\<exists>g. run_loop env rq nm runs f = Some g
           \<and> dest g = dest f \<and> dest_size g = dest_size f \<and> dir g = dir f
           \<and> log_filename g = log_filename f
           \<and> info g = sprintf_alloc (env_info_alloc env) (exhausted_text rq)"
  using assms
proof (induction env rq nm runs f rule: run_loop.induct)
  case (1 env rq nm runs f)
  show ?case
  proof (cases "runs \<le> max_runs rq")
    case False
    then show ?thesis
      by (simp add: run_loop.simps [of env rq nm runs f] exhausted_text_def)
  next
    case True
    with "1.prems"(1) have u: "unstable_round env nm runs" by simp
    from True "1.prems"(2) have i: "runs \<noteq> INT_MAX" by simp
    from run_once_unstable [OF u "1.prems"(3,4,5), of rq]
    obtain f' where f': "run_once env rq nm runs f = Some (Next f')"
      "buffer (aux f') = aux_after env nm runs" "aux_size f' = length (buffer (aux f'))"
      "dest f' = dest f" "dest_size f' = dest_size f" "dir f' = dir f"
      "log_filename f' = log_filename f" "info f' = info f"
      by blast
    have "\<exists>g. run_loop env rq nm (runs + 1) f' = Some g
           \<and> dest g = dest f' \<and> dest_size g = dest_size f' \<and> dir g = dir f'
           \<and> log_filename g = log_filename f'
           \<and> info g = sprintf_alloc (env_info_alloc env) (exhausted_text rq)"
      using "1.prems" f'(2,3)
      by (intro "1.IH" [OF True f'(1) refl i]) simp_all
    then show ?thesis
      using True f' i by (simp add: run_loop.simps [of env rq nm runs f])
  qed
qed

lemma append_log_keeps:
  "dest (append_log env f) = dest f" "dest_size (append_log env f) = dest_size f"
  "dir (append_log env f) = dir f"
  by (simp_all add: append_log_def Let_def split: option.splits prod.splits)

lemma append_log_info:
  assumes "info f = Some m" and "env_concat_alloc env"
  shows "\<exists>m'. info (append_log env f) = Some m' \<and> prefix m m'"
  using assms
  by (auto simp: append_log_def Let_def sprintf_alloc_eq split: option.splits prod.splits)

lemma before_loop_log_filename:
  assumes "before_loop env rq = Inr (nm, f)"
  shows "log_filename f = Some (workdir nm @ ''/texput.log'')"
  using assms
  by (auto simp: before_loop_def Let_def frame0_def sprintf_alloc_eq
           split: option.splits sum.splits if_splits prod.splits)

lemma append_log_result:
  assumes "log_filename f = Some log_fn" and "read_file (env_log env) log_fn = (log, n, e)"
  shows "info (append_log env f) =
           (case log of
              None \<Rightarrow> info f
            | Some bytes \<Rightarrow>
                (case info f of
                   None \<Rightarrow> Some (c_str bytes)
                 | Some m \<Rightarrow>
                     if env_concat_alloc env then Some (m @ [LF, LF] @ c_str bytes)
                     else None))"
  using assms
  by (auto simp: append_log_def Let_def sprintf_alloc_eq split: option.splits)

lemma remove_workspace_result:
  "remove_workspace env f =
     (case dir f of
        None \<Rightarrow> Some f
      | Some d \<Rightarrow>
          (case remove_directory_recursively (env_remove env) d of
             None \<Rightarrow> None
           | Some (rc, error) \<Rightarrow>
               if rc \<noteq> 0
               then Some (f\<lparr>trace := trace f @ [Remove_directory d], dest := None,
                            dest_size := 0, info := error\<rparr>)
               else Some (f\<lparr>trace := trace f @ [Remove_directory d]\<rparr>)))"
  by (simp add: remove_workspace_def Let_def split: option.splits prod.splits)

lemma describes_failure_prefix: "describes_failure m \<Longrightarrow> prefix m m' \<Longrightarrow> describes_failure m'"
  unfolding describes_failure_def by (meson prefix_order.trans)

lemma describes_success_prefix: "describes_success m \<Longrightarrow> prefix m m' \<Longrightarrow> describes_success m'"
  unfolding describes_success_def by (meson prefix_order.trans)

lemma read_file_error_text:
  assumes "read_file a p = (None, n, e)" and "rd_msg_alloc a"
  shows "\<exists>m. e = Some m \<and> describes_failure m"
  using assms
  by (auto simp: read_file_def error_cleanup_def Let_def sprintf_alloc_eq describes_failure_def
           split: option.splits sum.splits if_splits)

lemma write_file_error_text:
  assumes "write_file a p s n = (rc, e)" and "rc \<noteq> 0" and "wr_msg_alloc a"
  shows "\<exists>m. e = Some m \<and> describes_failure m"
  using assms
  by (auto simp: write_file_def Let_def sprintf_alloc_eq describes_failure_def
           split: option.splits if_splits)

lemma wait_for_child_text:
  assumes "wait_for_child True c answers = Some (Some i)"
  shows "\<exists>m. i = Some m \<and> describes_failure m"
  using assms
  by (induction True c answers rule: wait_for_child.induct)
     (auto simp: sprintf_alloc_eq describes_failure_def split: if_splits)

lemma rm_recorded_text:
  "\<forall>rc m. remove_directory_recursively s d = Some (rc, Some m) \<longrightarrow> describes_failure m"
  "\<forall>m. remove_entries es d error = Some (Some m) \<longrightarrow>
       (\<forall>m'. error = Some m' \<longrightarrow> describes_failure m') \<longrightarrow> describes_failure m"
proof (induction s d and es d error rule: remove_directory_recursively_remove_entries.induct)
  case (1 opendir_ans entries closedir_ans rmdir_ans msg_ok rmdir_msg_ok dirname)
  show ?case
  proof (cases opendir_ans)
    case (Some e)
    then show ?thesis
      by (auto simp: Let_def sprintf_alloc_eq describes_failure_def split: if_splits)
  next
    case None
    have "\<forall>m. remove_entries entries dirname None = Some (Some m) \<longrightarrow> describes_failure m"
      using "1.IH" [of None] None by simp
    with None show ?thesis
      by (auto simp: Let_def sprintf_alloc_eq describes_failure_def
               split: if_splits option.splits)
  qed
next
  case (2 dirname error)
  show ?case by simp
next
  case (3 d_name name_ok msg_ok d_type entries dirname error)
  let ?name = "sprintf_alloc name_ok (dirname @ ''/'' @ d_name)"
  show ?case
  proof (intro allI impI)
    fix m
    assume r: "remove_entries (Dirent d_name name_ok msg_ok d_type # entries) dirname error
                 = Some (Some m)"
       and e: "\<forall>m'. error = Some m' \<longrightarrow> describes_failure m'"
    show "describes_failure m"
    proof (cases "d_name = ''.'' \<or> d_name = ''..''")
      case True
      with r have "remove_entries entries dirname error = Some (Some m)" by simp
      with "3.IH"(1) [OF True] e show ?thesis by blast
    next
      case False
      show ?thesis
      proof (cases "?name = None \<and> error = None")
        case True
        with r False
        have "remove_entries entries dirname (sprintf_alloc msg_ok ''Out of memory.'')
                = Some (Some m)"
          by (simp add: Let_def)
        moreover have "\<forall>m'. sprintf_alloc msg_ok ''Out of memory.'' = Some m'
                         \<longrightarrow> describes_failure m'"
          by (simp add: sprintf_alloc_eq describes_failure_def)
        ultimately show ?thesis
          using "3.IH"(2) [OF False refl True] by blast
      next
        case nn: False
        show ?thesis
        proof (cases d_type)
          case (DT_OTHER unlink_ans)
          let ?e = "case ?name of
                      None \<Rightarrow> error
                    | Some path \<Rightarrow>
                        if unlink_ans \<noteq> None \<and> error = None
                        then sprintf_alloc msg_ok
                               (''Unable to remove file '' @ quoted path @ '': ''
                                @ the unlink_ans @ ''.'')
                        else error"
          from r False nn DT_OTHER
          have "remove_entries entries dirname ?e = Some (Some m)"
            by (auto simp: Let_def split: if_splits)
          moreover have "\<forall>m'. ?e = Some m' \<longrightarrow> describes_failure m'"
            using e
            by (auto simp: sprintf_alloc_eq describes_failure_def
                     split: option.splits if_splits)
          ultimately show ?thesis
            using "3.IH"(5) [OF False refl nn DT_OTHER] by blast
        next
          case (DT_DIR sub)
          from r False nn DT_DIR obtain path rc sub_error where
            p: "?name = Some path" and
            s: "remove_directory_recursively sub path = Some (rc, sub_error)" and
            q: "remove_entries entries dirname
                  (if rc \<noteq> 0 \<and> error = None then sub_error else error) = Some (Some m)"
            by (auto simp: Let_def split: option.splits if_splits)
          have "\<forall>m'. (if rc \<noteq> 0 \<and> error = None then sub_error else error) = Some m'
                  \<longrightarrow> describes_failure m'"
            using e "3.IH"(3) [OF False refl nn DT_DIR p] s by (auto split: if_splits)
          with "3.IH"(4) [OF False refl nn DT_DIR p s refl] q show ?thesis by blast
        qed
      qed
    qed
  qed
qed

lemma failure_stateI:
  "dest f = None \<Longrightarrow> dest_size f = 0 \<Longrightarrow> info f = Some m \<Longrightarrow> describes_failure m
   \<Longrightarrow> failure_state f"
  by (simp add: failure_state_def)

lemma before_loop_Inl_settled:
  assumes "before_loop env rq = Inl f" and "messages_allocated env rq"
  shows "failure_state f"
proof -
  have w: "\<And>p s n rc e. write_file (env_write env) p s n = (rc, e) \<Longrightarrow> rc \<noteq> 0
            \<Longrightarrow> \<exists>m. e = Some m \<and> describes_failure m"
    using assms(2) by (auto simp: messages_allocated_def intro: write_file_error_text)
  have a: "env_template_alloc env" "env_src_alloc env" "env_aux_alloc env" "env_log_alloc env"
    "env_dest_alloc env" "env_info_alloc env"
    using assms(2) by (simp_all add: messages_allocated_def)
  show ?thesis
    using assms(1)
    by (auto simp: before_loop_def Let_def frame0_def a sprintf_alloc_eq failure_state_def
                   describes_failure_def
             split: option.splits sum.splits if_splits prod.splits dest: w)
qed

lemma run_once_settled:
  assumes "pending f" and "env_info_alloc env" and "rd_msg_alloc (run_dest (env_run env runs))"
  shows "case run_once env rq nm runs f of
           None \<Rightarrow> True
         | Some (Next f') \<Rightarrow> pending f'
         | Some (Goto_cleanup g) \<Rightarrow> settled g"
proof -
  let ?a = "env_run env runs"
  obtain aux_new n e where r: "read_file (run_aux ?a) (aux_filename nm) = (aux_new, n, e)"
    by (cases "read_file (run_aux ?a) (aux_filename nm)")
  obtain d d_size error where t: "read_file (run_dest ?a) (dest_filename nm) = (d, d_size, error)"
    by (cases "read_file (run_dest ?a) (dest_filename nm)")
  have s: "d_size = length (buffer d)"
    using t by (rule read_file_size)
  have x: "\<exists>m. error = Some m \<and> describes_failure m" if "d = None"
    using t that assms(3) by (auto intro: read_file_error_text)
  have w: "\<And>i. wait_for_child True (cmd nm) (run_wait ?a) = Some (Some i)
            \<Longrightarrow> \<exists>m. i = Some m \<and> describes_failure m"
    by (rule wait_for_child_text)
  show ?thesis
    using assms(1,2) s x
    by (auto simp: run_once_def Let_def r t pending_def settled_def success_state_def
                   failure_state_def sprintf_alloc_eq describes_failure_def
                   describes_success_def generated_info_def
             split: option.splits dest: w)
qed

lemma run_loop_settled:
  assumes "run_loop env rq nm runs f = Some g" and "pending f" and "1 \<le> runs"
      and "env_info_alloc env"
      and "\<forall>k\<in>{1..max_runs rq}. rd_msg_alloc (run_dest (env_run env k))"
  shows "settled g"
  using assms
proof (induction env rq nm runs f rule: run_loop.induct)
  case (1 env rq nm runs f)
  show ?case
  proof (cases "runs \<le> max_runs rq")
    case False
    with "1.prems"(1,2,4) show ?thesis
      by (auto simp: run_loop.simps [of env rq nm runs f] pending_def settled_def
                     failure_state_def sprintf_alloc_eq describes_failure_def)
  next
    case True
    with "1.prems"(3,5) have m: "rd_msg_alloc (run_dest (env_run env runs))" by simp
    note o = run_once_settled [OF "1.prems"(2,4) m, of rq nm]
    show ?thesis
    proof (cases "run_once env rq nm runs f")
      case None
      with True "1.prems"(1) show ?thesis
        by (simp add: run_loop.simps [of env rq nm runs f])
    next
      case (Some st)
      show ?thesis
      proof (cases st)
        case (Goto_cleanup g')
        with Some True "1.prems"(1) o show ?thesis
          by (simp add: run_loop.simps [of env rq nm runs f])
      next
        case (Next f')
        with Some o have p: "pending f'" by simp
        from Some Next True "1.prems"(1)
        have i: "runs \<noteq> INT_MAX" and l: "run_loop env rq nm (runs + 1) f' = Some g"
          by (auto simp: run_loop.simps [of env rq nm runs f] split: if_splits)
        from "1.prems"(3) have "1 \<le> runs + 1" by simp
        with "1.IH" [OF True Some Next i l p] "1.prems"(4,5) show ?thesis by simp
      qed
    qed
  qed
qed

lemma append_log_settled:
  assumes "settled f" and "env_concat_alloc env"
  shows "settled (append_log env f)"
proof -
  from assms(1) obtain m where m: "info f = Some m"
    by (auto simp: settled_def success_state_def failure_state_def split: option.splits)
  from append_log_info [OF m assms(2)]
  obtain m' where m': "info (append_log env f) = Some m'" "prefix m m'" by blast
  show ?thesis
    using assms(1) m m'
    by (auto simp: settled_def success_state_def failure_state_def append_log_keeps
             split: option.splits
             intro: describes_failure_prefix describes_success_prefix)
qed

lemma rm_error_text:
  assumes "remove_directory_recursively s d = Some (rc, error)" and "rc \<noteq> 0"
      and "rmdir_msg_alloc s"
  shows "\<exists>m. error = Some m \<and> describes_failure m"
proof -
  from assms have "error \<noteq> None"
    by (cases s) (auto simp: Let_def sprintf_alloc_eq split: if_splits option.splits)
  with rm_recorded_text(1) [of s d] assms(1) show ?thesis by auto
qed

lemma remove_workspace_settled:
  assumes "settled f" and "rmdir_msg_alloc (env_remove env)"
      and "remove_workspace env f = Some r"
  shows "settled r"
  using assms
  by (auto simp: remove_workspace_result settled_def failure_state_def success_state_def
           split: option.splits prod.splits if_splits dest!: rm_error_text)

text \<open>The example scripts, evaluated.\<close>

lemmas examples = plain_env_def plain_request_def plain_run_def plain_names_def plain_frame_def
  plain_done_def writes_all_def frame0_def stuck_env_def growing_env_def growing_run_def
  growing_stuck_env_def starved_env_def mute_env_def postscript_request_def
  single_run_request_def

lemmas evaluation = sprintf_alloc_def quoted_def fmt_lu.simps fmt_i_def digit_char_def Let_def
  read_no_file read_file_with memcmp_zero_def generated_info_def select_cmd_def write_file_def
  INT_MAX_def

lemma stuck_before_cleanup: "before_cleanup stuck_env plain_request = Some plain_done"
  by (simp add: before_cleanup_def before_loop_def run_loop.simps run_once_def examples evaluation)

lemma stuck_removal:
  "remove_directory_recursively stuck_directory ''/tmp/texcaller-temp-abcdef''
     = Some (- 1, Some (''Unable to remove file '' @ quoted ''/tmp/texcaller-temp-abcdef/sub/a''
                        @ '': Permission denied.''))"
  by (simp add: stuck_directory_def sprintf_alloc_def quoted_def)

lemma emptied_removal:
  "remove_directory_recursively emptied_directory ''/tmp/texcaller-temp-abcdef'' = Some (0, None)"
  by (simp add: emptied_directory_def sprintf_alloc_def quoted_def)

lemma growing_before_loop: "before_loop growing_env plain_request = Inr (plain_names, plain_frame)"
  by (simp add: before_loop_def examples evaluation)

lemma growing_stuck_before_loop:
  "before_loop growing_stuck_env plain_request = Inr (plain_names, plain_frame)"
  by (simp add: before_loop_def examples evaluation)

lemma growing_unstable:
  "unstable_round growing_env plain_names 1" "unstable_round growing_env plain_names 2"
  "unstable_round growing_stuck_env plain_names 1" "unstable_round growing_stuck_env plain_names 2"
  by (simp_all add: unstable_round_def aux_after_def examples evaluation)

lemma interval_1_2: "{1..2::int} = {1, 2}"
  by auto

lemma plain_convert:
  "texcaller_convert plain_env plain_request
     = Some (plain_done\<lparr>info := Some (''Generated PDF (4 bytes) from TeX (5 bytes) after 1 runs.''
                                       @ [LF, LF] @ ''log''),
               trace := trace plain_done @ [Read_file ''/tmp/texcaller-temp-abcdef/texput.log'',
                          Remove_directory ''/tmp/texcaller-temp-abcdef'']\<rparr>)"
  by (simp add: texcaller_convert_def plain_before_cleanup)
     (simp add: cleanup_def append_log_def remove_workspace_def
          emptied_directory_def c_str_def examples evaluation)

subsection \<open>The conversion: the claims\<close>

text \<open>
  C4, as amended.  The four supported pairs select the commands \<^verbatim>\<open>tex\<close>, \<^verbatim>\<open>pdftex\<close>,
  \<^verbatim>\<open>latex\<close> and \<^verbatim>\<open>pdflatex\<close>.  For any other pair the call returns at once: \<^verbatim>\<open>*dest\<close> is
  \<^verbatim>\<open>NULL\<close>, \<^verbatim>\<open>*dest_size\<close> is 0, no directory has been created (\<open>dir\<close> is \<^verbatim>\<open>NULL\<close>) and
  the trace is empty: the call has reached neither the file system nor the
  environment.  \<^verbatim>\<open>*info\<close> is the message that quotes both formats when
  \<^verbatim>\<open>sprintf_alloc\<close> can allocate it, and \<^verbatim>\<open>NULL\<close> when it cannot.
\<close>

theorem unsupported_pair:
  assumes "(src_format rq, dest_format rq) \<notin> set (map fst engine_table)"
  shows "select_cmd sf df = map_of engine_table (sf, df)
     \<and> texcaller_convert env rq =
           Some \<lparr>dir = None, log_filename = None, aux = None, aux_size = 0,
                 dest = None, dest_size = 0,
                 info = (if env_info_alloc env
                         then Some (''Unable to convert from '' @ quoted (src_format rq)
                                    @ '' to '' @ quoted (dest_format rq) @ ''.'')
                         else None),
                 trace = []\<rparr>"
proof -
  from assms have "select_cmd (src_format rq) (dest_format rq) = None"
    by (simp add: select_cmd_table map_of_eq_None_iff)
  then show ?thesis
    by (simp add: texcaller_convert_def before_cleanup_def before_loop_def select_cmd_table
        cleanup_no_workspace frame0_def sprintf_alloc_eq)
qed

theorem unsupported_pair_witness:
  "select_cmd ''LaTeX'' ''PDF'' = Some ''pdflatex''
   \<and> texcaller_convert plain_env postscript_request
     = Some (frame0\<lparr>info := Some (''Unable to convert from '' @ quoted ''TeX'' @ '' to ''
                                    @ quoted ''PostScript'' @ ''.'')\<rparr>)"
  using unsupported_pair [of postscript_request "''LaTeX''" "''PDF''" plain_env]
  by (simp add: examples engine_table_def sprintf_alloc_def quoted_def)

text \<open>
  C4 as stated fails: the pair is not supported and the message cannot be
  allocated; the call fails with \<^verbatim>\<open>*info\<close> \<^verbatim>\<open>NULL\<close>, so no diagnostic names the
  formats.
\<close>

theorem unsupported_pair_unnamed:
  "(src_format postscript_request, dest_format postscript_request)
     = (''TeX'', ''PostScript'')
   \<and> select_cmd ''TeX'' ''PostScript'' = None
   \<and> texcaller_convert mute_env postscript_request = Some frame0
   \<and> info frame0 = None"
  by (simp add: texcaller_convert_def before_cleanup_def before_loop_def cleanup_def
      append_log_def remove_workspace_def examples evaluation)

text \<open>
  C5, as amended.  For a supported pair and \<^verbatim>\<open>max_runs < 2\<close> the call returns at
  once: \<^verbatim>\<open>*dest\<close> is \<^verbatim>\<open>NULL\<close>, \<^verbatim>\<open>*dest_size\<close> is 0, no directory has been created and
  the trace is empty.  \<^verbatim>\<open>*info\<close> is the message that cites the value of \<^verbatim>\<open>max_runs\<close>
  when \<^verbatim>\<open>sprintf_alloc\<close> can allocate it, and \<^verbatim>\<open>NULL\<close> when it cannot.
\<close>

theorem invalid_max_runs:
  assumes "(src_format rq, dest_format rq) \<in> set (map fst engine_table)"
      and "max_runs rq < 2"
  shows "texcaller_convert env rq =
           Some \<lparr>dir = None, log_filename = None, aux = None, aux_size = 0,
                 dest = None, dest_size = 0,
                 info = (if env_info_alloc env
                         then Some (''Argument max_runs is '' @ fmt_i (max_runs rq)
                                    @ '', but must be >= 2.'')
                         else None),
                 trace = []\<rparr>"
proof -
  from assms(1) obtain c where "select_cmd (src_format rq) (dest_format rq) = Some c"
    by (cases "map_of engine_table (src_format rq, dest_format rq)")
       (auto simp: select_cmd_table map_of_eq_None_iff)
  with assms(2) show ?thesis
    by (simp add: texcaller_convert_def before_cleanup_def before_loop_def
        cleanup_no_workspace frame0_def sprintf_alloc_eq)
qed

theorem invalid_max_runs_witness:
  "texcaller_convert plain_env single_run_request
     = Some (frame0\<lparr>info := Some ''Argument max_runs is 1, but must be >= 2.''\<rparr>)"
  using invalid_max_runs [of single_run_request plain_env]
  by (simp add: examples engine_table_def evaluation)

text \<open>
  C5 as stated fails: \<^verbatim>\<open>max_runs\<close> is 1 and the message cannot be allocated; the call
  fails with \<^verbatim>\<open>*info\<close> \<^verbatim>\<open>NULL\<close>, so no diagnostic cites the run count.
\<close>

theorem invalid_max_runs_uncited:
  "select_cmd (src_format single_run_request) (dest_format single_run_request) = Some ''pdftex''
   \<and> max_runs single_run_request = 1
   \<and> texcaller_convert mute_env single_run_request = Some frame0
   \<and> info frame0 = None"
  by (simp add: texcaller_convert_def before_cleanup_def before_loop_def cleanup_def
      append_log_def remove_workspace_def examples evaluation)

text \<open>
  C1.  When the call reaches the label \<^verbatim>\<open>cleanup\<close> with a directory created
  (\<open>dir\<close> is not \<^verbatim>\<open>NULL\<close>) and the removal of that directory returns non-zero, the
  call returns with \<^verbatim>\<open>*dest\<close> \<^verbatim>\<open>NULL\<close>, \<^verbatim>\<open>*dest_size\<close> 0 and \<^verbatim>\<open>*info\<close> the error of the
  removal, whatever the variables \<open>f\<close> held at the label, destination bytes
  included.
\<close>

theorem cleanup_failure_overrides:
  assumes "before_cleanup env rq = Some f"
      and "dir f = Some d"
      and "remove_directory_recursively (env_remove env) d = Some (rc, error)"
      and "rc \<noteq> 0"
  shows "\<exists>r. texcaller_convert env rq = Some r
             \<and> dest r = None \<and> dest_size r = 0 \<and> info r = error"
  using assms
  by (simp add: texcaller_convert_def cleanup_def remove_workspace_def dir_append_log)

theorem cleanup_failure_overrides_witness:
  "before_cleanup stuck_env plain_request = Some plain_done
   \<and> dest plain_done = Some ''%PDF''
   \<and> (\<exists>r. texcaller_convert stuck_env plain_request = Some r
           \<and> dest r = None \<and> dest_size r = 0
           \<and> info r = Some (''Unable to remove file ''
                             @ quoted ''/tmp/texcaller-temp-abcdef/sub/a''
                             @ '': Permission denied.''))"
proof -
  have d: "dir plain_done = Some ''/tmp/texcaller-temp-abcdef''"
    by (simp add: examples)
  have r: "remove_directory_recursively (env_remove stuck_env) ''/tmp/texcaller-temp-abcdef''
           = Some (- 1, Some (''Unable to remove file ''
                              @ quoted ''/tmp/texcaller-temp-abcdef/sub/a''
                              @ '': Permission denied.''))"
    using stuck_removal by (simp add: examples)
  have "dest plain_done = Some ''%PDF''" by (simp add: examples)
  with cleanup_failure_overrides [OF stuck_before_cleanup d r] stuck_before_cleanup
  show ?thesis by simp
qed

text \<open>
  C3, as amended.  In a round whose child is forked and ends with exit status
  zero, the loop is left as converged exactly when the bytes of the auxiliary file
  just read equal those of the previous round, a file that could not be read
  counting as empty on either side.  On convergence the destination file is read:
  when that fails (\<^verbatim>\<open>*dest\<close> is \<^verbatim>\<open>NULL\<close>) its error becomes \<^verbatim>\<open>*info\<close>; otherwise \<^verbatim>\<open>*info\<close>
  is the sentence giving the destination format and size, the source format and
  size, and the number of the round when \<^verbatim>\<open>sprintf_alloc\<close> can allocate it, and
  \<^verbatim>\<open>NULL\<close> when it cannot.  Without convergence the loop goes on with the new
  bytes as the snapshot.  The hypothesis on \<open>f\<close> holds at the entry of the loop and
  after every round.
\<close>

theorem run_once_convergence:
  assumes "run_fork (env_run env runs) = None"
      and "exited_zero (run_wait (env_run env runs))"
      and "aux_size f = length (buffer (aux f))"
      and "read_file (run_aux (env_run env runs)) (aux_filename nm) = (aux_new, aux_new_size, e)"
      and "read_file (run_dest (env_run env runs)) (dest_filename nm) = (d, d_size, error)"
  shows "run_once env rq nm runs f =
     Some (if buffer aux_new = buffer (aux f) then
             Goto_cleanup
               (f\<lparr>aux := aux_new, aux_size := aux_new_size, dest := d, dest_size := d_size,
                  info := (case d of
                             None \<Rightarrow> error
                           | Some bytes \<Rightarrow>
                               if env_info_alloc env then
                                 Some (''Generated '' @ dest_format rq @ '' ('' @ fmt_lu (length bytes)
                                       @ '' bytes) from '' @ src_format rq @ '' (''
                                       @ fmt_lu (length (src rq)) @ '' bytes) after '' @ fmt_i runs
                                       @ '' runs.'')
                               else None),
                  trace := trace f @ [Fork (cmd nm) (workdir nm), Read_file (aux_filename nm),
                                      Read_file (dest_filename nm)]\<rparr>)
           else
             Next (f\<lparr>aux := aux_new, aux_size := aux_new_size,
                     trace := trace f @ [Fork (cmd nm) (workdir nm),
                                         Read_file (aux_filename nm)]\<rparr>))"
  using run_once_exited_zero [OF assms, of rq]
  by (simp add: sprintf_alloc_eq split: option.splits)

theorem run_once_convergence_witness:
  "run_once plain_env plain_request plain_names 1 plain_frame = Some (Goto_cleanup plain_done)
   \<and> run_once growing_env plain_request plain_names 1 plain_frame
       = Some (Next (plain_frame\<lparr>aux := Some ''1'', aux_size := 1,
                 trace := trace plain_frame @ [Fork ''pdftex'' ''/tmp/texcaller-temp-abcdef'',
                   Read_file ''/tmp/texcaller-temp-abcdef/texput.aux'']\<rparr>))"
proof -
  have 1: "run_once plain_env plain_request plain_names 1 plain_frame
             = Some (Goto_cleanup plain_done)"
    using run_once_convergence [of plain_env 1 plain_frame plain_names None 0
        "Some (''Unable to open file '' @ quoted (aux_filename plain_names)
               @ '' for reading: No such file or directory.'')"
        "Some ''%PDF''" 4 None plain_request]
    by (simp add: examples evaluation)
  have 2: "run_once growing_env plain_request plain_names 1 plain_frame
       = Some (Next (plain_frame\<lparr>aux := Some ''1'', aux_size := 1,
                 trace := trace plain_frame @ [Fork ''pdftex'' ''/tmp/texcaller-temp-abcdef'',
                   Read_file ''/tmp/texcaller-temp-abcdef/texput.aux'']\<rparr>))"
    using run_once_convergence [of growing_env 1 plain_frame plain_names "Some ''1''" 1 None
        "Some ''%PDF''" 4 None plain_request]
    by (simp add: examples evaluation)
  from 1 2 show ?thesis by simp
qed

text \<open>
  C3 as stated fails: the first round converges and the destination file is read,
  but the sentence cannot be allocated; the round ends in success with the
  destination bytes and \<^verbatim>\<open>*info\<close> \<^verbatim>\<open>NULL\<close>, a diagnostic that reports nothing.
\<close>

theorem convergence_undiagnosed:
  "run_fork (env_run mute_env 1) = None
   \<and> exited_zero (run_wait (env_run mute_env 1))
   \<and> run_once mute_env plain_request plain_names 1 plain_frame
       = Some (Goto_cleanup (plain_done\<lparr>info := None\<rparr>))
   \<and> dest (plain_done\<lparr>info := None\<rparr>) = Some ''%PDF''
   \<and> info (plain_done\<lparr>info := None\<rparr>) = None"
  by (simp add: run_once_def examples evaluation)

text \<open>
  C10.  At the entry of the loop the snapshot is \<^verbatim>\<open>NULL\<close> with size 0.  So when the
  first child ends with exit status zero and the auxiliary file is missing or
  empty, the call reaches \<^verbatim>\<open>cleanup\<close> from the first round, having forked once and
  read the destination file: with its bytes and the sentence for one run, or with
  the error of that read.
\<close>

theorem first_round_converges:
  assumes "before_loop env rq = Inr (nm, f)"
      and "run_fork (env_run env 1) = None"
      and "exited_zero (run_wait (env_run env 1))"
      and "read_file (run_aux (env_run env 1)) (aux_filename nm) = (aux_new, aux_new_size, e)"
      and "buffer aux_new = []"
      and "read_file (run_dest (env_run env 1)) (dest_filename nm) = (d, d_size, error)"
  shows "aux f = None \<and> aux_size f = 0
     \<and> before_cleanup env rq =
         Some (f\<lparr>aux := aux_new, aux_size := aux_new_size, dest := d, dest_size := d_size,
                 info := (case d of
                            None \<Rightarrow> error
                          | Some bytes \<Rightarrow>
                              sprintf_alloc (env_info_alloc env)
                                (''Generated '' @ dest_format rq @ '' ('' @ fmt_lu (length bytes)
                                 @ '' bytes) from '' @ src_format rq @ '' (''
                                 @ fmt_lu (length (src rq)) @ '' bytes) after '' @ fmt_i 1
                                 @ '' runs.'')),
                 trace := trace f @ [Fork (cmd nm) (workdir nm), Read_file (aux_filename nm),
                                     Read_file (dest_filename nm)]\<rparr>)"
proof -
  note b = before_loop_Inr [OF assms(1)]
  have w: "wait_for_child (env_info_alloc env) (cmd nm) (run_wait (env_run env 1)) = Some None"
    using assms(3) by (simp add: wait_for_child_zero)
  have n: "aux_new_size = 0"
    using read_file_size [OF assms(4)] assms(5) by simp
  have s: "d_size = length (buffer d)"
    using assms(6) by (rule read_file_size)
  have "run_once env rq nm 1 f =
     Some (Goto_cleanup
         (f\<lparr>aux := aux_new, aux_size := aux_new_size, dest := d, dest_size := d_size,
                 info := (case d of
                            None \<Rightarrow> error
                          | Some bytes \<Rightarrow>
                              sprintf_alloc (env_info_alloc env)
                                (''Generated '' @ dest_format rq @ '' ('' @ fmt_lu (length bytes)
                                 @ '' bytes) from '' @ src_format rq @ '' (''
                                 @ fmt_lu (length (src rq)) @ '' bytes) after '' @ fmt_i 1
                                 @ '' runs.'')),
                 trace := trace f @ [Fork (cmd nm) (workdir nm), Read_file (aux_filename nm),
                                     Read_file (dest_filename nm)]\<rparr>))"
    using s b
    by (simp add: run_once_def Let_def assms(2,4,6) w n memcmp_zero_def generated_info_def
             split: option.splits)
  then show ?thesis
    using b by (simp add: before_cleanup_def assms(1) run_loop.simps [of env rq nm 1 f])
qed

theorem first_round_converges_witness:
  "before_loop plain_env plain_request = Inr (plain_names, plain_frame)
   \<and> aux plain_frame = None \<and> aux_size plain_frame = 0
   \<and> before_cleanup plain_env plain_request = Some plain_done
   \<and> info plain_done = Some ''Generated PDF (4 bytes) from TeX (5 bytes) after 1 runs.''"
  using first_round_converges [OF plain_before_loop, of None 0
        "Some (''Unable to open file '' @ quoted (aux_filename plain_names)
               @ '' for reading: No such file or directory.'')"
        "Some ''%PDF''" 4 None]
  by (simp add: plain_before_loop) (simp add: examples evaluation)

text \<open>
  C8, as amended.  Let \<^verbatim>\<open>max_runs\<close> be below \<^verbatim>\<open>INT_MAX\<close>, let every round from 1 to
  \<^verbatim>\<open>max_runs\<close> end with exit status zero and an auxiliary file that differs from the
  one before, and let the removal of the workspace return.  Then the call reaches
  \<^verbatim>\<open>cleanup\<close> with \<^verbatim>\<open>*dest\<close> \<^verbatim>\<open>NULL\<close>, \<^verbatim>\<open>*dest_size\<close> 0 and, for \<^verbatim>\<open>*info\<close>, the sentence that
  names \<^verbatim>\<open>max_runs\<close> when \<^verbatim>\<open>sprintf_alloc\<close> can allocate it and \<^verbatim>\<open>NULL\<close> when it cannot.
  The call returns no destination bytes.  Its diagnostic is the error of the
  removal when the removal fails.  When the removal succeeds it is the diagnostic
  from the loop if no log is read, and otherwise that diagnostic, an empty line
  and the log; where the sentence could not be allocated it is the log alone, and
  where the joined text cannot be allocated it is \<^verbatim>\<open>NULL\<close>.
\<close>

theorem run_limit_exhausted:
  assumes "before_loop env rq = Inr (nm, f)"
      and "max_runs rq < INT_MAX"
      and "\<forall>k\<in>{1..max_runs rq}. unstable_round env nm k"
      and "read_file (env_log env) (workdir nm @ ''/texput.log'') = (log, log_size, e)"
      and "remove_directory_recursively (env_remove env) (workdir nm) = Some (rc, error)"
  shows "\<exists>g r. before_cleanup env rq = Some g \<and> dest g = None \<and> dest_size g = 0
           \<and> info g = (if env_info_alloc env
                        then Some (''Output didn'' @ [SQ] @ ''t stabilize after ''
                                   @ fmt_i (max_runs rq) @ '' runs.'')
                        else None)
           \<and> texcaller_convert env rq = Some r \<and> dest r = None \<and> dest_size r = 0
           \<and> info r =
               (if rc \<noteq> 0 then error
                else case log of
                       None \<Rightarrow> info g
                     | Some bytes \<Rightarrow>
                         (case info g of
                            None \<Rightarrow> Some (c_str bytes)
                          | Some m \<Rightarrow>
                              if env_concat_alloc env then Some (m @ [LF, LF] @ c_str bytes)
                              else None))"
proof -
  note b = before_loop_Inr [OF assms(1)]
  have "\<forall>k. 1 \<le> k \<and> k \<le> max_runs rq \<longrightarrow> unstable_round env nm k"
    using assms(3) by simp
  from run_loop_unstable [OF this assms(2), of f] b
  obtain g where g: "run_loop env rq nm 1 f = Some g" "dest g = None" "dest_size g = 0"
      "dir g = Some (workdir nm)" "log_filename g = log_filename f"
      "info g = sprintf_alloc (env_info_alloc env) (exhausted_text rq)"
    by (auto simp: aux_after_def)
  have bc: "before_cleanup env rq = Some g"
    by (simp add: before_cleanup_def assms(1) g(1))
  have lf: "log_filename g = Some (workdir nm @ ''/texput.log'')"
    using before_loop_log_filename [OF assms(1)] g(5) by simp
  note al = append_log_result [OF lf assms(4)]
  let ?h = "append_log env g"
  let ?r = "if rc \<noteq> 0
            then ?h\<lparr>trace := trace ?h @ [Remove_directory (workdir nm)], dest := None,
                    dest_size := 0, info := error\<rparr>
            else ?h\<lparr>trace := trace ?h @ [Remove_directory (workdir nm)]\<rparr>"
  have r: "texcaller_convert env rq = Some ?r"
    by (simp add: texcaller_convert_def bc cleanup_def remove_workspace_result append_log_keeps
        g(4) assms(5))
  have i: "info g = (if env_info_alloc env then Some (exhausted_text rq) else None)"
    by (simp add: g(6) sprintf_alloc_eq exhausted_text_def)
  have d: "dest ?r = None \<and> dest_size ?r = 0"
    using g(2,3) by (simp add: append_log_keeps)
  have j: "info ?r =
               (if rc \<noteq> 0 then error
                else case log of
                       None \<Rightarrow> info g
                     | Some bytes \<Rightarrow>
                         (case info g of
                            None \<Rightarrow> Some (c_str bytes)
                          | Some m \<Rightarrow>
                              if env_concat_alloc env then Some (m @ [LF, LF] @ c_str bytes)
                              else None))"
    by (simp add: al)
  from bc g(2,3) i r d j show ?thesis
    unfolding exhausted_text_def by blast
qed

theorem run_limit_exhausted_witness:
  "unstable_round growing_env plain_names 1 \<and> unstable_round growing_env plain_names 2
   \<and> max_runs plain_request = 2
   \<and> map_option info (texcaller_convert growing_env plain_request)
       = Some (Some (''Output didn'' @ [SQ] @ ''t stabilize after 2 runs.'' @ [LF, LF] @ ''log''))
   \<and> map_option dest (texcaller_convert growing_env plain_request) = Some None"
proof -
  have u: "\<forall>k\<in>{1..max_runs plain_request}. unstable_round growing_env plain_names k"
    by (simp add: plain_request_def interval_1_2 growing_unstable)
  have m: "max_runs plain_request < INT_MAX"
    by (simp add: plain_request_def INT_MAX_def)
  have l: "read_file (env_log growing_env) (workdir plain_names @ ''/texput.log'')
             = (Some ''log'', 3, None)"
    by (simp add: examples read_file_with)
  have x: "remove_directory_recursively (env_remove growing_env) (workdir plain_names)
             = Some (0, None)"
    using emptied_removal by (simp add: examples)
  from run_limit_exhausted [OF growing_before_loop m u l x] growing_unstable
  show ?thesis
    by (auto simp: plain_request_def growing_env_def plain_env_def c_str_def fmt_i_def
                   fmt_lu.simps digit_char_def)
qed

text \<open>
  C8 as stated fails: here both rounds end with exit status zero and the auxiliary
  file changes, yet the removal of the workspace fails and the diagnostic of the
  call is the error of the removal, in which the run limit does not occur.
\<close>

theorem run_limit_not_named:
  "unstable_round growing_stuck_env plain_names 1
   \<and> unstable_round growing_stuck_env plain_names 2
   \<and> max_runs plain_request = 2
   \<and> map_option info (texcaller_convert growing_stuck_env plain_request)
       = Some (Some (''Unable to remove file '' @ quoted ''/tmp/texcaller-temp-abcdef/sub/a''
                     @ '': Permission denied.''))
   \<and> \<not> sublist (fmt_i (max_runs plain_request))
          (''Unable to remove file '' @ quoted ''/tmp/texcaller-temp-abcdef/sub/a''
           @ '': Permission denied.'')"
proof -
  have c: "map_option info (texcaller_convert growing_stuck_env plain_request)
       = Some (Some (''Unable to remove file '' @ quoted ''/tmp/texcaller-temp-abcdef/sub/a''
                     @ '': Permission denied.''))"
    by (simp add: texcaller_convert_def before_cleanup_def growing_stuck_before_loop)
       (simp add: run_loop.simps run_once_def cleanup_def append_log_def remove_workspace_def
          stuck_directory_def c_str_def examples evaluation)
  have n: "\<not> sublist (fmt_i (max_runs plain_request))
          (''Unable to remove file '' @ quoted ''/tmp/texcaller-temp-abcdef/sub/a''
           @ '': Permission denied.'')"
    by (simp add: plain_request_def evaluation sublist_Cons_right)
  from growing_unstable c n show ?thesis by (simp add: plain_request_def)
qed

text \<open>
  C9, as amended.  When the allocations on which a diagnostic depends succeed, a
  call that returns is in exactly one of the two states: destination bytes of the
  stated size with a diagnostic that describes success, or no destination bytes,
  size 0, and a diagnostic that describes a failure.
\<close>

theorem convert_outcome:
  assumes "messages_allocated env rq" and "texcaller_convert env rq = Some r"
  shows "(success_state r \<and> \<not> failure_state r) \<or> (failure_state r \<and> \<not> success_state r)"
proof -
  from assms(2) obtain g where g: "before_cleanup env rq = Some g" "cleanup env g = Some r"
    by (auto simp: texcaller_convert_def split: option.splits)
  have a: "env_info_alloc env" "env_concat_alloc env" "rmdir_msg_alloc (env_remove env)"
    "\<forall>k\<in>{1..max_runs rq}. rd_msg_alloc (run_dest (env_run env k))"
    using assms(1) by (simp_all add: messages_allocated_def)
  have "settled g"
  proof (cases "before_loop env rq")
    case (Inl f)
    with g(1) before_loop_Inl_settled [OF Inl assms(1)] show ?thesis
      by (simp add: before_cleanup_def settled_def)
  next
    case (Inr p)
    obtain nm f where p: "p = (nm, f)" by (cases p)
    from before_loop_Inr [of env rq nm f] Inr p have "pending f"
      by (simp add: pending_def)
    with g(1) Inr p a(1,4) show ?thesis
      by (auto simp: before_cleanup_def intro: run_loop_settled)
  qed
  then have "settled (append_log env g)"
    using a(2) by (rule append_log_settled)
  then have "settled r"
    using a(3) g(2) unfolding cleanup_def by (rule remove_workspace_settled)
  then show ?thesis
    by (auto simp: settled_def success_state_def failure_state_def)
qed

theorem convert_outcome_witness:
  "messages_allocated plain_env plain_request
   \<and> map_option dest (texcaller_convert plain_env plain_request) = Some (Some ''%PDF'')
   \<and> map_option success_state (texcaller_convert plain_env plain_request) = Some True
   \<and> map_option failure_state (texcaller_convert plain_env plain_request) = Some False"
proof -
  have m: "messages_allocated plain_env plain_request"
    by (simp add: messages_allocated_def emptied_directory_def file_with_def examples)
  from convert_outcome [OF m plain_convert] m show ?thesis
    by (simp add: plain_convert) (simp add: success_state_def describes_success_def examples)
qed

text \<open>
  C9 as stated fails: when the path template cannot be allocated the call returns
  with \<^verbatim>\<open>*dest\<close> and \<^verbatim>\<open>*info\<close> both \<^verbatim>\<open>NULL\<close>, in neither state.
\<close>

theorem diagnostic_missing:
  "map_option info (texcaller_convert starved_env plain_request) = Some None
   \<and> map_option dest (texcaller_convert starved_env plain_request) = Some None
   \<and> map_option success_state (texcaller_convert starved_env plain_request) = Some False
   \<and> map_option failure_state (texcaller_convert starved_env plain_request) = Some False"
  by (simp add: texcaller_convert_def before_cleanup_def before_loop_def cleanup_def
      append_log_def remove_workspace_def success_state_def failure_state_def
      examples evaluation)

end
